theory Spec2Isabelle
  imports Complex_Main "HOL-Library.AList"
begin

section \<open>Conventions\<close>

text \<open>
  The repository is TypeScript. A JavaScript \<^verbatim>\<open>number\<close> is modelled as a \<^typ>\<open>real\<close>:
  the properties below are about comparisons, branch order and the bookkeeping of the
  capital pool, and every value is taken to be finite (no NaN, no infinity). A field
  that may be \<^verbatim>\<open>null\<close> or \<^verbatim>\<open>undefined\<close> is an \<^typ>\<open>'a option\<close>. Module-level mutable
  variables are fields of a state record that every operation takes and returns.
\<close>

section \<open>Policy engine: \<^verbatim>\<open>src/services/policyEngine.ts\<close>\<close>

subsection \<open>Data\<close>

record TapeState =
  timestamp :: real
  up_px :: real
  down_px :: real
  market :: string

text \<open>\<^verbatim>\<open>PriceHistory\<close>: the field names carry the prefix \<open>h_\<close>, since they repeat those of
  \<^verbatim>\<open>TapeState\<close>.\<close>

record PriceHistory =
  h_timestamp :: real
  h_up_px :: real
  h_down_px :: real

record Features =
  delta_1s_side_px :: "real option"
  delta_5s_side_px :: "real option"
  delta_30s_side_px :: "real option"
  delta_1s_up_px :: "real option"
  delta_5s_up_px :: "real option"
  delta_30s_up_px :: "real option"
  delta_1s_down_px :: "real option"
  delta_5s_down_px :: "real option"
  delta_30s_down_px :: "real option"
  volatility_5s :: "real option"
  volatility_30s :: "real option"
  distance_from_50 :: real


datatype Side = UP | DOWN

record EntrySignal =
  should_trade :: bool
  side :: "Side option"
  reason :: string

text \<open>The parameter records of \<^verbatim>\<open>paramLoader\<close>, with the fields the engine reads.
  \<^verbatim>\<open>mode\<close> is a string in the source and stays one: any value other than
  \<^verbatim>\<open>'momentum'\<close> and \<^verbatim>\<open>'reversion'\<close> adds no condition.\<close>

record EntryParams =
  up_price_min :: "real option"
  up_price_max :: "real option"
  down_price_min :: "real option"
  down_price_max :: "real option"
  momentum_threshold :: real
  mode :: string

record SizeParams =
  bin_edges :: "real list option"
  size_table :: "(string \<times> real) list option"


record CadenceParams =
  min_inter_trade_ms :: real
  max_trades_per_sec :: real
  max_trades_per_min :: real

subsection \<open>\<^verbatim>\<open>computeFeatures\<close>\<close>

text \<open>The closure \<^verbatim>\<open>findClosest\<close>: the loop keeps the first sample of least distance to
  the target. On an empty buffer the source would read a field of \<^verbatim>\<open>undefined\<close>;
  \<^verbatim>\<open>computeFeatures\<close> returns before it can happen.\<close>

fun findClosestLoop :: "real \<Rightarrow> PriceHistory list \<Rightarrow> PriceHistory \<Rightarrow> real \<Rightarrow> PriceHistory" where
  "findClosestLoop targetTs [] closest minDiff = closest"
| "findClosestLoop targetTs (h # hs) closest minDiff =
     (let diff = \<bar>h_timestamp h - targetTs\<bar> in
      if diff < minDiff then findClosestLoop targetTs hs h diff
      else findClosestLoop targetTs hs closest minDiff)"

fun findClosest :: "PriceHistory list \<Rightarrow> real \<Rightarrow> PriceHistory option" where
  "findClosest [] targetTs = None"
| "findClosest (h0 # hs) targetTs =
     Some (findClosestLoop targetTs (h0 # hs) h0 \<bar>h_timestamp h0 - targetTs\<bar>)"

text \<open>The three assignments to the computed property names
  \<^verbatim>\<open>delta_${seconds}s_up_px\<close>, \<^verbatim>\<open>..._down_px\<close>, \<^verbatim>\<open>..._side_px\<close>.\<close>

definition setDelta :: "nat \<Rightarrow> real \<Rightarrow> real \<Rightarrow> Features \<Rightarrow> Features" where
  "setDelta seconds deltaUp deltaDown features =
     (if seconds = 1 then
        features\<lparr>delta_1s_up_px := Some deltaUp, delta_1s_down_px := Some deltaDown,
                 delta_1s_side_px := Some deltaUp\<rparr>
      else if seconds = 5 then
        features\<lparr>delta_5s_up_px := Some deltaUp, delta_5s_down_px := Some deltaDown,
                 delta_5s_side_px := Some deltaUp\<rparr>
      else if seconds = 30 then
        features\<lparr>delta_30s_up_px := Some deltaUp, delta_30s_down_px := Some deltaDown,
                 delta_30s_side_px := Some deltaUp\<rparr>
      else features)"

definition deltaStep :: "TapeState \<Rightarrow> PriceHistory list \<Rightarrow> nat \<Rightarrow> Features \<Rightarrow> Features" where
  "deltaStep state sortedHistory seconds features =
     (let now = timestamp state;
          windowTs = now - real seconds * 1000
      in case findClosest sortedHistory windowTs of
           None \<Rightarrow> features
         | Some past \<Rightarrow>
             if \<bar>h_timestamp past - windowTs\<bar> < real seconds * 2000
             then setDelta seconds (up_px state - h_up_px past)
                    (down_px state - h_down_px past) features
             else features)"

definition setVolatility :: "nat \<Rightarrow> real \<Rightarrow> Features \<Rightarrow> Features" where
  "setVolatility seconds v features =
     (if seconds = 5 then features\<lparr>volatility_5s := Some v\<rparr>
      else if seconds = 30 then features\<lparr>volatility_30s := Some v\<rparr>
      else features)"

definition volatilityStep :: "TapeState \<Rightarrow> PriceHistory list \<Rightarrow> nat \<Rightarrow> Features \<Rightarrow> Features" where
  "volatilityStep state sortedHistory seconds features =
     (let now = timestamp state;
          windowTs = now - real seconds * 1000;
          windowPrices = map h_up_px
            (filter (\<lambda>h. h_timestamp h \<ge> windowTs \<and> h_timestamp h \<le> now) sortedHistory)
      in if length windowPrices > 1 then
           (let mean = sum_list windowPrices / real (length windowPrices);
                variance = sum_list (map (\<lambda>p. (p - mean) ^ 2) windowPrices)
                             / real (length windowPrices)
            in setVolatility seconds (sqrt variance) features)
         else features)"

definition computeFeatures :: "TapeState \<Rightarrow> PriceHistory list \<Rightarrow> Features" where
  "computeFeatures state history =
     (let features = \<lparr>delta_1s_side_px = None, delta_5s_side_px = None,
            delta_30s_side_px = None, delta_1s_up_px = None, delta_5s_up_px = None,
            delta_30s_up_px = None, delta_1s_down_px = None, delta_5s_down_px = None,
            delta_30s_down_px = None, volatility_5s = None, volatility_30s = None,
            distance_from_50 = \<bar>up_px state - 0.5\<bar>\<rparr>
      in if history = [] then features
         else
           (let sortedHistory = sort_key h_timestamp history;
                features1 = fold (deltaStep state sortedHistory) [1, 5, 30] features
            in fold (volatilityStep state sortedHistory) [5, 30] features1))"

subsection \<open>\<^verbatim>\<open>entrySignal\<close>\<close>

definition upInBand :: "TapeState \<Rightarrow> EntryParams \<Rightarrow> bool" where
  "upInBand state entryParams =
     (case (up_price_min entryParams, up_price_max entryParams) of
        (Some lo, Some hi) \<Rightarrow> up_px state \<ge> lo \<and> up_px state \<le> hi
      | _ \<Rightarrow> False)"

definition downInBand :: "TapeState \<Rightarrow> EntryParams \<Rightarrow> bool" where
  "downInBand state entryParams =
     (case (down_price_min entryParams, down_price_max entryParams) of
        (Some lo, Some hi) \<Rightarrow> down_px state \<ge> lo \<and> down_px state \<le> hi
      | _ \<Rightarrow> False)"

text \<open>\<^verbatim>\<open>features.delta_5s_side_px ?? 0\<close> and
  \<^verbatim>\<open>features.delta_5s_down_px ?? delta5s\<close>.\<close>

definition delta5s :: "Features \<Rightarrow> real" where
  "delta5s features = (case delta_5s_side_px features of Some d \<Rightarrow> d | None \<Rightarrow> 0)"

definition delta5sDown :: "Features \<Rightarrow> real" where
  "delta5sDown features =
     (case delta_5s_down_px features of Some d \<Rightarrow> d | None \<Rightarrow> delta5s features)"

text \<open>The pair (\<^verbatim>\<open>upSignal\<close>, \<^verbatim>\<open>upReason\<close>) at the end of the UP block, and the same for
  the DOWN block.\<close>

definition upSignal :: "EntryParams \<Rightarrow> real \<Rightarrow> bool \<times> string" where
  "upSignal entryParams d =
     (if mode entryParams = ''momentum'' then
        (if d < momentum_threshold entryParams then (False, ''momentum_not_met'')
         else (True, ''momentum_met''))
      else if mode entryParams = ''reversion'' then
        (if d > - momentum_threshold entryParams then (False, ''reversion_not_met'')
         else (True, ''reversion_met''))
      else (True, ''up_price_band''))"

definition downSignal :: "EntryParams \<Rightarrow> real \<Rightarrow> bool \<times> string" where
  "downSignal entryParams d =
     (if mode entryParams = ''momentum'' then
        (if d < momentum_threshold entryParams then (False, ''momentum_not_met'')
         else (True, ''momentum_met''))
      else if mode entryParams = ''reversion'' then
        (if d > - momentum_threshold entryParams then (False, ''reversion_not_met'')
         else (True, ''reversion_met''))
      else (True, ''down_price_band''))"

definition entrySignal :: "TapeState \<Rightarrow> Features \<Rightarrow> EntryParams option \<Rightarrow> EntrySignal" where
  "entrySignal state features entryParamsOpt =
     (case entryParamsOpt of
        None \<Rightarrow> \<lparr>should_trade = False, side = None, reason = ''no_entry_params''\<rparr>
      | Some entryParams \<Rightarrow>
          if upInBand state entryParams
             \<and> fst (upSignal entryParams (delta5s features))
          then \<lparr>should_trade = True, side = Some UP,
                 reason = snd (upSignal entryParams (delta5s features))\<rparr>
          else if downInBand state entryParams
             \<and> fst (downSignal entryParams (delta5sDown features))
          then \<lparr>should_trade = True, side = Some DOWN,
                 reason = snd (downSignal entryParams (delta5sDown features))\<rparr>
          else \<lparr>should_trade = False, side = None, reason = ''no_band_match''\<rparr>)"

subsection \<open>\<^verbatim>\<open>sizeForTrade\<close>\<close>

text \<open>The scan \<^verbatim>\<open>for (let i = 0; i < binEdges.length - 1; i++)\<close> with its
  \<^verbatim>\<open>break\<close>; the result is \<open>-1\<close> when no bucket matched.\<close>

function findBucket :: "real \<Rightarrow> real list \<Rightarrow> nat \<Rightarrow> int" where
  "findBucket sidePx binEdges i =
     (if i + 1 < length binEdges then
        (if sidePx \<ge> binEdges ! i \<and> sidePx \<le> binEdges ! (i + 1) then int i
         else findBucket sidePx binEdges (i + 1))
      else - 1)"
  by pat_completeness auto
termination
  by (relation "measure (\<lambda>(sidePx, binEdges, i). length binEdges - i)") auto

declare findBucket.simps [simp del]

text \<open>\<^verbatim>\<open>bucketIndex\<close> after the out-of-range fallback. \<^verbatim>\<open>binEdges[0]\<close> of an empty array
  is \<^verbatim>\<open>undefined\<close>, and a comparison with it is false.\<close>

definition bucketIndex :: "real \<Rightarrow> real list \<Rightarrow> int" where
  "bucketIndex sidePx binEdges =
     (let b = findBucket sidePx binEdges 0 in
      if b = - 1 then
        (if binEdges \<noteq> [] \<and> sidePx < binEdges ! 0 then 0
         else int (length binEdges) - 2)
      else b)"

text \<open>An array read that may be out of range, and the text JavaScript gives it inside a
  template string. \<open>fmt\<close> is \<^verbatim>\<open>Number.prototype.toString\<close>, a parameter of the model.\<close>

definition edgeAt :: "real list \<Rightarrow> int \<Rightarrow> real option" where
  "edgeAt binEdges j =
     (if 0 \<le> j \<and> j < int (length binEdges) then Some (binEdges ! nat j) else None)"

definition showEdge :: "(real \<Rightarrow> string) \<Rightarrow> real option \<Rightarrow> string" where
  "showEdge fmt e = (case e of None \<Rightarrow> ''undefined'' | Some x \<Rightarrow> fmt x)"

definition bucketKey :: "(real \<Rightarrow> string) \<Rightarrow> real list \<Rightarrow> int \<Rightarrow> string" where
  "bucketKey fmt binEdges b =
     ''('' @ showEdge fmt (edgeAt binEdges b) @ '', ''
          @ showEdge fmt (edgeAt binEdges (b + 1)) @ '']''"

text \<open>\<^verbatim>\<open>parseFloat(x.toFixed(4))\<close>. For a number of magnitude \<open>10^21\<close> or more
  \<^verbatim>\<open>Number.prototype.toFixed\<close> returns the number's ordinary string, which \<^verbatim>\<open>parseFloat\<close> reads
  back; below that it
  takes the sign off, picks the integer \<open>n\<close> with \<open>n / 10000\<close> nearest to the magnitude,
  the larger one at a tie, and puts the sign back: a tie goes away from zero.\<close>

definition toFixed4 :: "real \<Rightarrow> real" where
  "toFixed4 x =
     (if \<bar>x\<bar> \<ge> 10 ^ 21 then x
      else if x < 0 then - (real_of_int \<lfloor>(- x) * 10000 + 1 / 2\<rfloor> / 10000)
      else real_of_int \<lfloor>x * 10000 + 1 / 2\<rfloor> / 10000)"

definition sizeForTrade ::
  "(real \<Rightarrow> string) \<Rightarrow> TapeState \<Rightarrow> Features \<Rightarrow> SizeParams option \<Rightarrow> Side \<Rightarrow> real" where
  "sizeForTrade fmt state features sizeParamsOpt sd =
     (case sizeParamsOpt of
        None \<Rightarrow> 1.0
      | Some sizeParams \<Rightarrow>
          (case size_table sizeParams of
             None \<Rightarrow> 1.0
           | Some tbl \<Rightarrow>
               if tbl = [] then 1.0
               else
                 (let sidePx = (if sd = UP then up_px state else down_px state);
                      binEdges = (case bin_edges sizeParams of Some es \<Rightarrow> es | None \<Rightarrow> []);
                      b = bucketIndex sidePx binEdges
                  in case map_of tbl (bucketKey fmt binEdges b) of
                       Some v \<Rightarrow> toFixed4 v
                     | None \<Rightarrow>
                         (let sorted = sort (map snd tbl)
                          in toFixed4 (sorted ! (length sorted div 2))))))"

subsection \<open>\<^verbatim>\<open>inventoryOkAndRebalance\<close>\<close>


subsection \<open>\<^verbatim>\<open>cadenceOk\<close>\<close>

definition trades1s :: "real list \<Rightarrow> real \<Rightarrow> nat" where
  "trades1s recentTradeTimes currentTs =
     length (filter (\<lambda>ts. ts \<ge> currentTs - 1000 \<and> ts \<le> currentTs) recentTradeTimes)"

definition trades60s :: "real list \<Rightarrow> real \<Rightarrow> nat" where
  "trades60s recentTradeTimes currentTs =
     length (filter (\<lambda>ts. ts \<ge> currentTs - 60000 \<and> ts \<le> currentTs) recentTradeTimes)"

definition cadenceOk ::
  "real option \<Rightarrow> real list \<Rightarrow> CadenceParams option \<Rightarrow> real \<Rightarrow> bool" where
  "cadenceOk lastTradeTs recentTradeTimes cadenceParamsOpt currentTs =
     (case cadenceParamsOpt of
        None \<Rightarrow> True
      | Some cadenceParams \<Rightarrow>
          if (case lastTradeTs of
                None \<Rightarrow> False
              | Some l \<Rightarrow> currentTs - l < min_inter_trade_ms cadenceParams) then False
          else if real (trades1s recentTradeTimes currentTs)
                    \<ge> max_trades_per_sec cadenceParams then False
          else if real (trades60s recentTradeTimes currentTs)
                    \<ge> max_trades_per_min cadenceParams then False
          else True)"

section \<open>Paper-trading lifecycle: \<^verbatim>\<open>src/services/parityDiagnostics.ts\<close>\<close>

subsection \<open>Data\<close>

record MarketPosition =
  conditionId :: string
  marketKey :: string
  marketName :: string
  marketSlug :: string
  assetUp :: string
  assetDown :: string
  endDate :: real
  sharesUp :: real
  sharesDown :: real
  costUp :: real
  costDown :: real
  arbSharesUp :: real
  arbSharesDown :: real
  arbCostUp :: real
  arbCostDown :: real
  currentPriceUp :: real
  currentPriceDown :: real
  hasSplitPosition :: bool
  hasArbitragePosition :: bool
  isSettled :: bool
  settlementPnL :: real
  createdAt :: real

text \<open>The value type of the map \<^verbatim>\<open>discoveredMarkets\<close>; the fields it shares with
  \<^verbatim>\<open>MarketPosition\<close> carry the prefix \<open>m_\<close>.\<close>

record DiscoveredMarket =
  m_conditionId :: string
  m_marketKey :: string
  m_marketName :: string
  m_marketSlug :: string
  m_assetUp :: string
  m_assetDown :: string
  m_endDate :: real
  priceUp :: real
  priceDown :: real
  lastUpdate :: real

record PositionBuildState =
  b_marketKey :: string
  targetUp :: real
  targetDown :: real
  investedUp :: real
  investedDown :: real
  lastTradeTime :: real
  nextTradeTime :: real
  tradeCount :: nat
  avgPriceUp :: real
  avgPriceDown :: real
  initialPriceUp :: real
  initialPriceDown :: real
  lastRebalanceTime :: real
  momentumBias :: real

text \<open>What \<^verbatim>\<open>logPaperTrade\<close> is called with, and what the \<^verbatim>\<open>SETTLED\<close> log line reports.\<close>

record PaperTrade =
  t_conditionId :: string
  t_side :: Side
  t_action :: string
  t_shares :: real
  t_cost :: real
  t_price :: real

record Settlement =
  s_marketKey :: string
  s_winner :: string
  s_cost :: real
  s_value :: real
  s_pnl :: real

text \<open>The cycle key \<^verbatim>\<open>`${conditionId}:${Math.floor(endDate / 60000)}`\<close> is kept as the
  pair it is built from. \<^verbatim>\<open>processedCycles\<close> is a JavaScript \<^verbatim>\<open>Set\<close>, which iterates in
  insertion order: a list without repetitions, newest key last. The maps are
  association lists in insertion order.\<close>

type_synonym CycleKey = "string \<times> int"

record PaperState =
  currentCapital :: real
  totalPnL :: real
  totalTrades :: nat
  totalCycles :: nat
  positions :: "(string \<times> MarketPosition) list"
  discoveredMarkets :: "(string \<times> DiscoveredMarket) list"
  processedCycles :: "CycleKey list"
  buildingPositions :: "(string \<times> PositionBuildState) list"
  paperTrades :: "PaperTrade list"
  settlementLog :: "Settlement list"

text \<open>\<^verbatim>\<open>PAPER_MIN_TRADE\<close> and \<^verbatim>\<open>PAPER_MAX_TRADE\<close> are read from the process environment
  (defaults 0.50 and 15).\<close>

record PaperEnv =
  PAPER_MIN_TRADE :: real
  PAPER_MAX_TRADE :: real

definition EXPIRATION_WINDOW_MS :: real where
  "EXPIRATION_WINDOW_MS = 2 * 60 * 1000"

definition CLEAR_OUTCOME_THRESHOLD :: real where
  "CLEAR_OUTCOME_THRESHOLD = 0.95"

definition MAX_LOSER_PRICE :: real where
  "MAX_LOSER_PRICE = 0.05"

definition MIN_LOSER_PRICE :: real where
  "MIN_LOSER_PRICE = 0.001"

subsection \<open>\<^verbatim>\<open>finalizePosition\<close>\<close>

text \<open>The object literal \<^verbatim>\<open>position\<close>; \<open>now\<close> is \<^verbatim>\<open>Date.now()\<close>. The parameter
  \<^verbatim>\<open>market\<close> is written \<open>mkt\<close> throughout (\<open>market\<close> is a field of \<^verbatim>\<open>TapeState\<close>).\<close>

definition newPosition :: "real \<Rightarrow> DiscoveredMarket \<Rightarrow> PositionBuildState \<Rightarrow> MarketPosition" where
  "newPosition now mkt buildState =
     \<lparr>conditionId = m_conditionId mkt,
      marketKey = m_marketKey mkt,
      marketName = m_marketName mkt,
      marketSlug = m_marketSlug mkt,
      assetUp = m_assetUp mkt,
      assetDown = m_assetDown mkt,
      endDate = m_endDate mkt,
      sharesUp = (if avgPriceUp buildState > 0
                  then investedUp buildState / avgPriceUp buildState else 0),
      sharesDown = (if avgPriceDown buildState > 0
                    then investedDown buildState / avgPriceDown buildState else 0),
      costUp = investedUp buildState,
      costDown = investedDown buildState,
      arbSharesUp = 0,
      arbSharesDown = 0,
      arbCostUp = 0,
      arbCostDown = 0,
      currentPriceUp = priceUp mkt,
      currentPriceDown = priceDown mkt,
      hasSplitPosition = True,
      hasArbitragePosition = False,
      isSettled = False,
      settlementPnL = 0,
      createdAt = now\<rparr>"

definition finalizePosition ::
  "real \<Rightarrow> PaperState \<Rightarrow> DiscoveredMarket \<Rightarrow> PositionBuildState \<Rightarrow> PaperState" where
  "finalizePosition now st mkt buildState =
     (let positionKey = m_conditionId mkt
      in st\<lparr>positions := AList.update positionKey (newPosition now mkt buildState)
                             (positions st),
             buildingPositions := AList.delete positionKey (buildingPositions st)\<rparr>)"

subsection \<open>\<^verbatim>\<open>executeArbitrageTrade\<close>\<close>

text \<open>\<^verbatim>\<open>winner\<close> and \<^verbatim>\<open>loserPrice\<close>; \<open>None\<close> is the \<^verbatim>\<open>null\<close> winner.\<close>

definition clearWinner :: "real \<Rightarrow> real \<Rightarrow> (Side \<times> real) option" where
  "clearWinner pUp pDown =
     (if pUp \<ge> CLEAR_OUTCOME_THRESHOLD \<and> pDown \<le> MAX_LOSER_PRICE \<and> pDown \<ge> MIN_LOSER_PRICE
      then Some (UP, pDown)
      else if pDown \<ge> CLEAR_OUTCOME_THRESHOLD \<and> pUp \<le> MAX_LOSER_PRICE \<and> pUp \<ge> MIN_LOSER_PRICE
      then Some (DOWN, pUp)
      else None)"

definition cycleKey :: "MarketPosition \<Rightarrow> CycleKey" where
  "cycleKey position = (conditionId position, \<lfloor>endDate position / 60000\<rfloor>)"

definition executeArbitrageTrade ::
  "PaperEnv \<Rightarrow> real \<Rightarrow> PaperState \<Rightarrow> MarketPosition \<Rightarrow> DiscoveredMarket
     \<Rightarrow> PaperState \<times> MarketPosition" where
  "executeArbitrageTrade env now st position mkt =
     (if hasArbitragePosition position \<or> isSettled position then (st, position)
      else
        (let endDateMs = (if endDate position < 10000000000 then endDate position * 1000
                          else endDate position);
             timeToExpiration = endDateMs - now
         in
         if timeToExpiration > EXPIRATION_WINDOW_MS \<or> timeToExpiration < 10000
         then (st, position)
         else
           (case clearWinner (priceUp mkt) (priceDown mkt) of
              None \<Rightarrow> (st, position)
            | Some (winner, loserPrice) \<Rightarrow>
                if cycleKey position \<in> set (processedCycles st) then (st, position)
                else
                  (let st1 = st\<lparr>processedCycles := processedCycles st @ [cycleKey position]\<rparr>;
                       availableCapital = min (currentCapital st1) (PAPER_MAX_TRADE env)
                   in
                   if availableCapital < PAPER_MIN_TRADE env then (st1, position)
                   else
                     (let arbShares = availableCapital / loserPrice;
                          arbCost = availableCapital;
                          st2 = st1\<lparr>currentCapital := currentCapital st1 - arbCost\<rparr>;
                          position1 =
                            (if winner = UP
                             then position\<lparr>arbSharesDown := arbSharesDown position + arbShares,
                                           arbCostDown := arbCostDown position + arbCost\<rparr>
                             else position\<lparr>arbSharesUp := arbSharesUp position + arbShares,
                                           arbCostUp := arbCostUp position + arbCost\<rparr>);
                          position2 = position1\<lparr>hasArbitragePosition := True\<rparr>;
                          loserSide = (if winner = UP then DOWN else UP);
                          st3 = st2\<lparr>totalTrades := totalTrades st2 + 1,
                                     paperTrades := paperTrades st2 @
                                       [\<lparr>t_conditionId = conditionId position2,
                                         t_side = loserSide, t_action = ''BUY'',
                                         t_shares = arbShares, t_cost = arbCost,
                                         t_price = loserPrice\<rparr>]\<rparr>
                      in (st3, position2))))))"

subsection \<open>\<^verbatim>\<open>settlePosition\<close> and \<^verbatim>\<open>settlePositions\<close>\<close>

text \<open>The removal of the settled position from \<^verbatim>\<open>positions\<close> is a timer that fires five
  seconds later; it is not part of the call.\<close>

definition settlePosition ::
  "PaperState \<Rightarrow> MarketPosition \<Rightarrow> bool \<Rightarrow> bool \<Rightarrow> PaperState \<times> MarketPosition" where
  "settlePosition st position upWon downWon =
     (if isSettled position then (st, position)
      else
        (let totalCost = costUp position + costDown position
                           + arbCostUp position + arbCostDown position;
             finalValue =
               (if upWon then (sharesUp position + arbSharesUp position) * 1.0
                else if downWon then (sharesDown position + arbSharesDown position) * 1.0
                else totalCost);
             pnl = finalValue - totalCost
         in (st\<lparr>currentCapital := currentCapital st + finalValue,
                 totalPnL := totalPnL st + pnl,
                 totalCycles := totalCycles st + 1,
                 settlementLog := settlementLog st @
                   [\<lparr>s_marketKey = marketKey position,
                     s_winner = (if upWon then ''UP''
                                 else if downWon then ''DOWN'' else ''UNCLEAR''),
                     s_cost = totalCost, s_value = finalValue, s_pnl = pnl\<rparr>]\<rparr>,
             position\<lparr>isSettled := True, settlementPnL := pnl\<rparr>)))"

text \<open>The final prices of one position. \<open>getOrderBookPrice\<close> is the order-book fetch, a
  parameter: the mid price of an asset, or \<open>None\<close> when the fetch fails. \<^verbatim>\<open>!priceUp\<close>
  holds of the number 0.\<close>

definition finalPrices ::
  "(string \<Rightarrow> real option) \<Rightarrow> PaperState \<Rightarrow> string \<Rightarrow> MarketPosition \<Rightarrow> real \<times> real" where
  "finalPrices getOrderBookPrice st cid position =
     (let mkt = map_of (discoveredMarkets st) cid;
          pUp = (case mkt of Some m \<Rightarrow> priceUp m | None \<Rightarrow> currentPriceUp position);
          pDown = (case mkt of Some m \<Rightarrow> priceDown m | None \<Rightarrow> currentPriceDown position)
      in if pUp = 0 \<or> pDown = 0 then
           ((case getOrderBookPrice (assetUp position) of Some f \<Rightarrow> f | None \<Rightarrow> pUp),
            (case getOrderBookPrice (assetDown position) of Some f \<Rightarrow> f | None \<Rightarrow> pDown))
         else (pUp, pDown))"

text \<open>The body of the loop over \<^verbatim>\<open>positions.entries()\<close>.\<close>

definition settleEntry ::
  "(string \<Rightarrow> real option) \<Rightarrow> real \<Rightarrow> PaperState \<Rightarrow> string \<Rightarrow> MarketPosition
     \<Rightarrow> PaperState \<times> MarketPosition" where
  "settleEntry getOrderBookPrice now st cid position =
     (if isSettled position then (st, position)
      else if endDate position = 0 \<or> endDate position > now then (st, position)
      else
        (let (pUp, pDown) = finalPrices getOrderBookPrice st cid position;
             upWon = (pUp \<ge> 0.95);
             downWon = (pDown \<ge> 0.95)
         in settlePosition st position upWon downWon))"

fun settleLoop ::
  "(string \<Rightarrow> real option) \<Rightarrow> real \<Rightarrow> PaperState \<Rightarrow> (string \<times> MarketPosition) list
     \<Rightarrow> PaperState \<times> (string \<times> MarketPosition) list" where
  "settleLoop getOrderBookPrice now st [] = (st, [])"
| "settleLoop getOrderBookPrice now st ((cid, position) # rest) =
     (let (st1, position1) = settleEntry getOrderBookPrice now st cid position;
          (st2, rest1) = settleLoop getOrderBookPrice now st1 rest
      in (st2, (cid, position1) # rest1))"

text \<open>``Clean up old processed cycles'': above 1000 keys, all but the newest 500 go.\<close>

definition pruneCycles :: "CycleKey list \<Rightarrow> CycleKey list" where
  "pruneCycles cycles =
     (if length cycles > 1000 then drop (length cycles - 500) cycles else cycles)"

definition settlePositions ::
  "(string \<Rightarrow> real option) \<Rightarrow> real \<Rightarrow> PaperState \<Rightarrow> PaperState" where
  "settlePositions getOrderBookPrice now st =
     (let (st1, ps) = settleLoop getOrderBookPrice now st (positions st)
      in st1\<lparr>positions := ps, processedCycles := pruneCycles (processedCycles st1)\<rparr>)"

subsection \<open>The main loop's pass over the discovered markets\<close>

text \<open>
  The body of the loop over \<^verbatim>\<open>discoveredMarkets.entries()\<close> in \<^verbatim>\<open>paperTradeMonitor\<close>. \<open>now\<close> is
  the \<^verbatim>\<open>Date.now()\<close> taken at the top of the iteration, \<open>callNow\<close> the one that
  \<^verbatim>\<open>executeArbitrageTrade\<close> takes when it is called. The position is read from
  \<^verbatim>\<open>positions\<close> under the market's condition id and the call mutates that object in
  place: the model stores the returned position back under the same id.
  \<^verbatim>\<open>buildPositionIncrementally\<close> draws its sides, sizes and gaps from \<^verbatim>\<open>Math.random()\<close>; it
  is a parameter here. A string is truthy when it is not empty.
\<close>

definition processMarket ::
  "(PaperState \<Rightarrow> DiscoveredMarket \<Rightarrow> PaperState) \<Rightarrow> PaperEnv \<Rightarrow> real \<Rightarrow> real
     \<Rightarrow> PaperState \<Rightarrow> string \<Rightarrow> DiscoveredMarket \<Rightarrow> PaperState" where
  "processMarket buildPositionIncrementally env now callNow st cid mkt =
     (if m_endDate mkt \<noteq> 0 \<and> m_endDate mkt > 0 \<and> m_endDate mkt \<le> now then st
      else
        (let position = map_of (positions st) cid;
             isBuilding = (map_of (buildingPositions st) cid \<noteq> None);
             hasAssets = (m_assetUp mkt \<noteq> [] \<and> m_assetDown mkt \<noteq> [])
         in
         if \<not> hasAssets then st
         else if isBuilding then buildPositionIncrementally st mkt
         else
           (case position of
              None \<Rightarrow> buildPositionIncrementally st mkt
            | Some p \<Rightarrow>
                if \<not> hasArbitragePosition p \<and> \<not> isSettled p then
                  (let (st1, p1) = executeArbitrageTrade env callNow st p mkt
                   in st1\<lparr>positions := AList.update cid p1 (positions st1)\<rparr>)
                else st)))"

text \<open>The loop itself; \<open>clock\<close> gives the time at which the call for a market is made.\<close>

fun marketLoop ::
  "(PaperState \<Rightarrow> DiscoveredMarket \<Rightarrow> PaperState) \<Rightarrow> PaperEnv \<Rightarrow> real \<Rightarrow> (string \<Rightarrow> real)
     \<Rightarrow> PaperState \<Rightarrow> (string \<times> DiscoveredMarket) list \<Rightarrow> PaperState" where
  "marketLoop buildPositionIncrementally env now clock st [] = st"
| "marketLoop buildPositionIncrementally env now clock st ((cid, mkt) # rest) =
     marketLoop buildPositionIncrementally env now clock
       (processMarket buildPositionIncrementally env now (clock cid) st cid mkt) rest"

definition marketPass ::
  "(PaperState \<Rightarrow> DiscoveredMarket \<Rightarrow> PaperState) \<Rightarrow> PaperEnv \<Rightarrow> real \<Rightarrow> (string \<Rightarrow> real)
     \<Rightarrow> PaperState \<Rightarrow> PaperState" where
  "marketPass buildPositionIncrementally env now clock st =
     marketLoop buildPositionIncrementally env now clock st (discoveredMarkets st)"

subsection \<open>Example data and a run over 1001 markets\<close>

text \<open>
  The environment defaults, the build state of the specification's round-trip example,
  and a run in which 1001 markets (condition ids \<open>m\<close>, \<open>mm\<close>, \<open>mmm\<close>, ...) sit in their
  expiration window at the same time, each with a finalized position and a clear UP
  winner at 0.97 / 0.03, while one older position \<open>x\<close> has expired unsettled and the capital
  pool is empty. \<open>runAfterTick\<close> is the state after one pass of the main loop over
  these markets, every call made at the time the iteration starts, and \<open>runAfterSettle\<close>
  the state after the \<^verbatim>\<open>settlePositions()\<close> call that ends the iteration. No market of the
  run is building or without a position, so the pass never reaches
  \<^verbatim>\<open>buildPositionIncrementally\<close> and is the same for every value of that parameter; the run
  fixes it to \<open>idleBuild\<close>.
\<close>

definition defaultEnv :: PaperEnv where
  "defaultEnv = \<lparr>PAPER_MIN_TRADE = 0.5, PAPER_MAX_TRADE = 15\<rparr>"

definition noOrderBook :: "string \<Rightarrow> real option" where
  "noOrderBook assetId = None"

definition exampleBuild :: PositionBuildState where
  "exampleBuild =
     \<lparr>b_marketKey = ''BTC_15m'', targetUp = 600, targetDown = 400, investedUp = 600,
      investedDown = 400, lastTradeTime = 0, nextTradeTime = 0, tradeCount = 40,
      avgPriceUp = 0.5, avgPriceDown = 0.4, initialPriceUp = 0.5, initialPriceDown = 0.5,
      lastRebalanceTime = 0, momentumBias = 0\<rparr>"

definition runEnd :: real where
  "runEnd = 2000000000000"

definition runNow :: real where
  "runNow = runEnd - 60000"

definition runId :: "nat \<Rightarrow> string" where
  "runId i = replicate (Suc i) CHR ''m''"

definition runMarket :: "nat \<Rightarrow> DiscoveredMarket" where
  "runMarket i =
     \<lparr>m_conditionId = runId i, m_marketKey = ''BTC_15m'', m_marketName = ''Bitcoin Up or Down'',
      m_marketSlug = ''btc-updown-15m'', m_assetUp = ''up'', m_assetDown = ''down'',
      m_endDate = runEnd, priceUp = 0.97, priceDown = 0.03, lastUpdate = runNow\<rparr>"

definition runPosition :: "nat \<Rightarrow> MarketPosition" where
  "runPosition i = newPosition (runNow - 50000) (runMarket i) exampleBuild"

definition expiredMarket :: DiscoveredMarket where
  "expiredMarket =
     \<lparr>m_conditionId = ''x'', m_marketKey = ''ETH_15m'', m_marketName = ''Ethereum Up or Down'',
      m_marketSlug = ''eth-updown-15m'', m_assetUp = ''up'', m_assetDown = ''down'',
      m_endDate = runNow - 1000, priceUp = 0.6, priceDown = 0.4, lastUpdate = runNow - 100000\<rparr>"

definition expiredPosition :: MarketPosition where
  "expiredPosition = newPosition (runNow - 100000) expiredMarket exampleBuild"

definition emptyState :: PaperState where
  "emptyState =
     \<lparr>currentCapital = 0, totalPnL = 0, totalTrades = 0, totalCycles = 0, positions = [],
      discoveredMarkets = [], processedCycles = [], buildingPositions = [],
      paperTrades = [], settlementLog = []\<rparr>"

definition runState :: PaperState where
  "runState =
     emptyState\<lparr>positions := (''x'', expiredPosition)
                    # map (\<lambda>i. (runId i, runPosition i)) [0..<1001],
                 discoveredMarkets := map (\<lambda>i. (runId i, runMarket i)) [0..<1001]\<rparr>"

definition idleBuild :: "PaperState \<Rightarrow> DiscoveredMarket \<Rightarrow> PaperState" where
  "idleBuild st mkt = st"

definition runClock :: "string \<Rightarrow> real" where
  "runClock cid = runNow"

definition runAfterTick :: PaperState where
  "runAfterTick = marketPass idleBuild defaultEnv runNow runClock runState"

definition runAfterSettle :: PaperState where
  "runAfterSettle = settlePositions noOrderBook runNow runAfterTick"

section \<open>Properties of the policy engine\<close>

text \<open>
  C7. With cadence parameters present, \<^verbatim>\<open>cadenceOk\<close> allows a trade only if the number of
  recent trade timestamps in the trailing window \<open>[now - 1000, now]\<close> is strictly below
  the per-second cap; when the count equals the cap the trade is rejected.
\<close>

theorem cadenceOk_per_second_cap:
  "(cadenceOk lastTradeTs recentTradeTimes (Some cadenceParams) currentTs \<longrightarrow>
      real (length (filter (\<lambda>ts. currentTs - 1000 \<le> ts \<and> ts \<le> currentTs) recentTradeTimes))
        < max_trades_per_sec cadenceParams)
   \<and> (real (length (filter (\<lambda>ts. currentTs - 1000 \<le> ts \<and> ts \<le> currentTs) recentTradeTimes))
        = max_trades_per_sec cadenceParams \<longrightarrow>
      \<not> cadenceOk lastTradeTs recentTradeTimes (Some cadenceParams) currentTs)"
  by (auto simp: cadenceOk_def trades1s_def split: option.splits if_splits)

theorem cadenceOk_per_second_cap_witness:
  "cadenceOk None [200, 900]
     (Some \<lparr>min_inter_trade_ms = 100, max_trades_per_sec = 5, max_trades_per_min = 30\<rparr>) 1000
   \<and> real (length (filter (\<lambda>ts. 1000 - 1000 \<le> ts \<and> ts \<le> 1000) [200, 900 :: real])) < 5
   \<and> real (length (filter (\<lambda>ts. 1000 - 1000 \<le> ts \<and> ts \<le> 1000) [200, 900 :: real])) = 2
   \<and> \<not> cadenceOk None [200, 900]
         (Some \<lparr>min_inter_trade_ms = 100, max_trades_per_sec = 2, max_trades_per_min = 30\<rparr>) 1000"
proof -
  have a: "cadenceOk None [200, 900]
      (Some \<lparr>min_inter_trade_ms = 100, max_trades_per_sec = 5, max_trades_per_min = 30\<rparr>) 1000"
    by (simp add: cadenceOk_def trades1s_def trades60s_def)
  have b: "real (length (filter (\<lambda>ts. 1000 - 1000 \<le> ts \<and> ts \<le> 1000) [200, 900 :: real])) = 2"
    by simp
  from a cadenceOk_per_second_cap [of None "[200, 900]"
      "\<lparr>min_inter_trade_ms = 100, max_trades_per_sec = 5, max_trades_per_min = 30\<rparr>" 1000]
  have c: "real (length (filter (\<lambda>ts. 1000 - 1000 \<le> ts \<and> ts \<le> 1000) [200, 900 :: real])) < 5"
    by simp
  from b cadenceOk_per_second_cap [of None "[200, 900]"
      "\<lparr>min_inter_trade_ms = 100, max_trades_per_sec = 2, max_trades_per_min = 30\<rparr>" 1000]
  have d: "\<not> cadenceOk None [200, 900]
      (Some \<lparr>min_inter_trade_ms = 100, max_trades_per_sec = 2, max_trades_per_min = 30\<rparr>) 1000"
    by simp
  from a b c d show ?thesis by blast
qed

text \<open>
  C8. \<^verbatim>\<open>entrySignal\<close> looks at the UP side first: whenever the UP side and the DOWN side both
  qualify on their own (each band matched, each mode condition met), the signal is a
  trade on side UP.
\<close>

theorem entrySignal_up_before_down:
  assumes "upInBand state entryParams"
      and "fst (upSignal entryParams (delta5s features))"
      and "downInBand state entryParams"
      and "fst (downSignal entryParams (delta5sDown features))"
  shows "should_trade (entrySignal state features (Some entryParams))
         \<and> side (entrySignal state features (Some entryParams)) = Some UP"
  using assms by (simp add: entrySignal_def)

theorem entrySignal_up_before_down_witness:
  "upInBand \<lparr>timestamp = 0, up_px = 0.5, down_px = 0.5, market = ''BTC_15m''\<rparr>
     \<lparr>up_price_min = Some 0.35, up_price_max = Some 0.65, down_price_min = Some 0.35,
      down_price_max = Some 0.65, momentum_threshold = 0.005, mode = ''momentum''\<rparr>
   \<and> downInBand \<lparr>timestamp = 0, up_px = 0.5, down_px = 0.5, market = ''BTC_15m''\<rparr>
     \<lparr>up_price_min = Some 0.35, up_price_max = Some 0.65, down_price_min = Some 0.35,
      down_price_max = Some 0.65, momentum_threshold = 0.005, mode = ''momentum''\<rparr>
   \<and> side (entrySignal \<lparr>timestamp = 0, up_px = 0.5, down_px = 0.5, market = ''BTC_15m''\<rparr>
     \<lparr>delta_1s_side_px = None, delta_5s_side_px = Some 0.01, delta_30s_side_px = None,
      delta_1s_up_px = None, delta_5s_up_px = Some 0.01, delta_30s_up_px = None,
      delta_1s_down_px = None, delta_5s_down_px = Some 0.02, delta_30s_down_px = None,
      volatility_5s = None, volatility_30s = None, distance_from_50 = 0\<rparr>
     (Some \<lparr>up_price_min = Some 0.35, up_price_max = Some 0.65, down_price_min = Some 0.35,
      down_price_max = Some 0.65, momentum_threshold = 0.005, mode = ''momentum''\<rparr>)) = Some UP"
proof -
  let ?st = "\<lparr>timestamp = 0, up_px = 0.5, down_px = 0.5, market = ''BTC_15m''\<rparr>"
  let ?ep = "\<lparr>up_price_min = Some 0.35, up_price_max = Some 0.65, down_price_min = Some 0.35,
      down_price_max = Some 0.65, momentum_threshold = 0.005, mode = ''momentum''\<rparr>"
  let ?f = "\<lparr>delta_1s_side_px = None, delta_5s_side_px = Some 0.01, delta_30s_side_px = None,
      delta_1s_up_px = None, delta_5s_up_px = Some 0.01, delta_30s_up_px = None,
      delta_1s_down_px = None, delta_5s_down_px = Some 0.02, delta_30s_down_px = None,
      volatility_5s = None, volatility_30s = None, distance_from_50 = 0\<rparr>"
  have a: "upInBand ?st ?ep" by (simp add: upInBand_def)
  have b: "fst (upSignal ?ep (delta5s ?f))" by (simp add: upSignal_def delta5s_def)
  have c: "downInBand ?st ?ep" by (simp add: downInBand_def)
  have d: "fst (downSignal ?ep (delta5sDown ?f))" by (simp add: downSignal_def delta5sDown_def)
  from entrySignal_up_before_down [OF a b c d] a c show ?thesis by simp
qed




subsection \<open>The bucket scan of \<^verbatim>\<open>sizeForTrade\<close>\<close>

text \<open>The scan returns the first index whose closed interval holds the price.\<close>

lemma findBucket_first_match:
  assumes "j \<le> k" "k + 1 < length es"
    and "\<forall>m. j \<le> m \<and> m < k \<longrightarrow> \<not> (es ! m \<le> p \<and> p \<le> es ! (m + 1))"
    and "es ! k \<le> p" "p \<le> es ! (k + 1)"
  shows "findBucket p es j = int k"
  using assms
proof (induction "k - j" arbitrary: j)
  case 0
  then have "j = k" by simp
  with 0 show ?case by (subst findBucket.simps) simp
next
  case (Suc d)
  then have lt: "j < k" by simp
  with Suc.prems have nomatch: "\<not> (es ! j \<le> p \<and> p \<le> es ! (j + 1))" by blast
  have "findBucket p es (j + 1) = int k"
    using Suc.hyps Suc.prems lt by (intro Suc.hyps(1)) auto
  with nomatch lt Suc.prems(2) show ?case
    by (subst findBucket.simps) auto
qed


text \<open>
  C4, as the code has it. Both ends of a bucket are inclusive and the first match wins,
  so over strictly ascending edges (at least two of them) a price exactly on
  \<open>edge[i]\<close> resolves to bin \<open>i - 1\<close> when \<open>i \<ge> 1\<close>, the bucket whose upper end it is, as
  the right-closed keys \<^verbatim>\<open>"(lower, upper]"\<close> of the size table have it; only a price on
  \<open>edge[0]\<close> resolves to bin 0.
\<close>

theorem bucketIndex_on_edge:
  assumes "sorted_wrt (<) binEdges" and "i < length binEdges" and "2 \<le> length binEdges"
  shows "bucketIndex (binEdges ! i) binEdges = (if i = 0 then 0 else int i - 1)"
proof (cases "i = 0")
  case True
  have "binEdges ! 0 < binEdges ! 1"
    using assms(1,3) by (simp add: sorted_wrt_iff_nth_less)
  then have "findBucket (binEdges ! 0) binEdges 0 = int 0"
    using assms(3) by (intro findBucket_first_match) auto
  with True show ?thesis by (simp add: bucketIndex_def)
next
  case False
  then obtain k where k: "i = k + 1" by (cases i) auto
  have lt: "binEdges ! k < binEdges ! (k + 1)"
    using assms(1,2) k by (simp add: sorted_wrt_iff_nth_less)
  have nomatch: "\<forall>m. 0 \<le> m \<and> m < k \<longrightarrow>
      \<not> (binEdges ! m \<le> binEdges ! i \<and> binEdges ! i \<le> binEdges ! (m + 1))"
  proof (intro allI impI)
    fix m assume "0 \<le> m \<and> m < k"
    then have "binEdges ! (m + 1) < binEdges ! i"
      using assms(1,2) k by (simp add: sorted_wrt_iff_nth_less)
    then show "\<not> (binEdges ! m \<le> binEdges ! i \<and> binEdges ! i \<le> binEdges ! (m + 1))"
      by simp
  qed
  have "findBucket (binEdges ! i) binEdges 0 = int k"
    using assms(2) k lt nomatch by (intro findBucket_first_match) auto
  with False k show ?thesis by (simp add: bucketIndex_def)
qed

theorem bucketIndex_on_edge_witness:
  "sorted_wrt (<) [0, 1/2, 1 :: real] \<and> bucketIndex ([0, 1/2, 1] ! 2) [0, 1/2, 1] = 1
   \<and> bucketIndex ([0, 1/2, 1] ! 0) [0, 1/2, 1] = 0"
  using bucketIndex_on_edge [of "[0, 1/2, 1]" 2] bucketIndex_on_edge [of "[0, 1/2, 1]" 0]
  by simp


text \<open>
  C4 as the specification states it fails: over the edges 0, 0.5, 1 the price 0.5 lies
  on \<open>edge[1]\<close> and resolves to bin 0, not to bin 1.
\<close>

theorem bucketIndex_on_edge_counterexample:
  "sorted_wrt (<) [0, 1/2, 1 :: real] \<and> [0, 1/2, 1 :: real] ! 1 = 1/2
   \<and> bucketIndex (1/2) [0, 1/2, 1] = 0 \<and> bucketIndex ([0, 1/2, 1] ! 1) [0, 1/2, 1] \<noteq> 1"
  by (simp add: bucketIndex_def findBucket.simps)


subsection \<open>The delta features of \<^verbatim>\<open>computeFeatures\<close>\<close>

text \<open>\<^verbatim>\<open>findClosest\<close> returns a sample of the buffer at least distance from the target.\<close>

lemma findClosestLoop_min:
  assumes "minDiff = \<bar>h_timestamp closest - t\<bar>"
  shows "(findClosestLoop t hs closest minDiff = closest \<or> findClosestLoop t hs closest minDiff \<in> set hs)
       \<and> \<bar>h_timestamp (findClosestLoop t hs closest minDiff) - t\<bar> \<le> minDiff
       \<and> (\<forall>h\<in>set hs. \<bar>h_timestamp (findClosestLoop t hs closest minDiff) - t\<bar> \<le> \<bar>h_timestamp h - t\<bar>)"
  using assms
proof (induction hs arbitrary: closest minDiff)
  case Nil
  then show ?case by simp
next
  case (Cons h hs)
  show ?case
  proof (cases "\<bar>h_timestamp h - t\<bar> < minDiff")
    case True
    from Cons.IH [of "\<bar>h_timestamp h - t\<bar>" h] True Cons.prems show ?thesis
      by (auto simp: Let_def)
  next
    case False
    from Cons.IH [of minDiff closest] False Cons.prems show ?thesis
      by (auto simp: Let_def)
  qed
qed

lemma findClosest_within:
  assumes "xs \<noteq> []"
  shows "\<exists>r. findClosest xs t = Some r \<and>
           (\<bar>h_timestamp r - t\<bar> < B \<longleftrightarrow> (\<exists>h\<in>set xs. \<bar>h_timestamp h - t\<bar> < B))"
proof -
  from assms obtain h0 hs where xs: "xs = h0 # hs" by (cases xs) auto
  let ?r = "findClosestLoop t (h0 # hs) h0 \<bar>h_timestamp h0 - t\<bar>"
  from findClosestLoop_min [of "\<bar>h_timestamp h0 - t\<bar>" h0 t "h0 # hs"]
  have mem: "?r \<in> set (h0 # hs)"
    and least: "\<forall>h\<in>set (h0 # hs). \<bar>h_timestamp ?r - t\<bar> \<le> \<bar>h_timestamp h - t\<bar>"
    by auto
  have "(\<bar>h_timestamp ?r - t\<bar> < B) = (\<exists>h\<in>set (h0 # hs). \<bar>h_timestamp h - t\<bar> < B)"
  proof
    assume "\<bar>h_timestamp ?r - t\<bar> < B"
    with mem show "\<exists>h\<in>set (h0 # hs). \<bar>h_timestamp h - t\<bar> < B" by blast
  next
    assume "\<exists>h\<in>set (h0 # hs). \<bar>h_timestamp h - t\<bar> < B"
    then obtain h where "h \<in> set (h0 # hs)" "\<bar>h_timestamp h - t\<bar> < B" by blast
    with least show "\<bar>h_timestamp ?r - t\<bar> < B" by force
  qed
  with xs show ?thesis by simp
qed

lemma deltaStep_cases:
  assumes "sh \<noteq> []"
  shows "\<exists>du dd. deltaStep st sh s f =
     (if (\<exists>h\<in>set sh. \<bar>h_timestamp h - (timestamp st - real s * 1000)\<bar> < real s * 2000)
      then setDelta s du dd f else f)"
proof -
  from findClosest_within [OF assms, of "timestamp st - real s * 1000" "real s * 2000"]
  obtain r where "findClosest sh (timestamp st - real s * 1000) = Some r"
    and "(\<bar>h_timestamp r - (timestamp st - real s * 1000)\<bar> < real s * 2000)
          = (\<exists>h\<in>set sh. \<bar>h_timestamp h - (timestamp st - real s * 1000)\<bar> < real s * 2000)"
    by blast
  then show ?thesis by (auto simp: deltaStep_def Let_def)
qed


text \<open>
  C5. For every history buffer and each window \<open>w\<close> of 1 s, 5 s and 30 s,
  \<^verbatim>\<open>computeFeatures\<close> sets the delta features of the window (UP, DOWN and the side alias)
  exactly when some sample of the buffer has a timestamp at distance less than \<open>2w\<close> from
  \<open>now - w\<close>; otherwise the fields stay absent (\<open>None\<close>), they are never set to 0.
\<close>

theorem computeFeatures_delta_present_iff:
  fixes state :: TapeState and history :: "PriceHistory list"
  defines "F \<equiv> computeFeatures state history"
    and "near \<equiv> (\<lambda>w. \<exists>h\<in>set history. \<bar>h_timestamp h - (timestamp state - w)\<bar> < 2 * w)"
  shows "(delta_1s_up_px F \<noteq> None) = near 1000
       \<and> (delta_1s_down_px F \<noteq> None) = near 1000
       \<and> (delta_1s_side_px F \<noteq> None) = near 1000
       \<and> (delta_5s_up_px F \<noteq> None) = near 5000
       \<and> (delta_5s_down_px F \<noteq> None) = near 5000
       \<and> (delta_5s_side_px F \<noteq> None) = near 5000
       \<and> (delta_30s_up_px F \<noteq> None) = near 30000
       \<and> (delta_30s_down_px F \<noteq> None) = near 30000
       \<and> (delta_30s_side_px F \<noteq> None) = near 30000"
proof (cases "history = []")
  case True
  then show ?thesis by (simp add: F_def near_def computeFeatures_def)
next
  case False
  let ?sh = "sort_key h_timestamp history"
  have ne: "?sh \<noteq> []" using False by (metis length_0_conv length_sort)
  have st: "set ?sh = set history" by simp
  let ?f0 = "\<lparr>delta_1s_side_px = None, delta_5s_side_px = None,
            delta_30s_side_px = None, delta_1s_up_px = None, delta_5s_up_px = None,
            delta_30s_up_px = None, delta_1s_down_px = None, delta_5s_down_px = None,
            delta_30s_down_px = None, volatility_5s = None, volatility_30s = None,
            distance_from_50 = \<bar>up_px state - 0.5\<bar>\<rparr>"
  define f1 where "f1 = deltaStep state ?sh 1 ?f0"
  define f5 where "f5 = deltaStep state ?sh 5 f1"
  define f30 where "f30 = deltaStep state ?sh 30 f5"
  obtain du1 dd1 where s1: "f1 = (if near 1000 then setDelta 1 du1 dd1 ?f0 else ?f0)"
    using deltaStep_cases [OF ne, of state 1 ?f0] by (auto simp: near_def st f1_def)
  obtain du5 dd5 where s5: "f5 = (if near 5000 then setDelta 5 du5 dd5 f1 else f1)"
    using deltaStep_cases [OF ne, of state 5 f1] by (auto simp: near_def st f5_def)
  obtain du30 dd30 where s30: "f30 = (if near 30000 then setDelta 30 du30 dd30 f5 else f5)"
    using deltaStep_cases [OF ne, of state 30 f5] by (auto simp: near_def st f30_def)
  have F: "F = volatilityStep state ?sh 30 (volatilityStep state ?sh 5 f30)"
    using False by (simp add: F_def computeFeatures_def Let_def f30_def f5_def f1_def)
  have vol: "\<And>s g.
      delta_1s_up_px (volatilityStep state ?sh s g) = delta_1s_up_px g
    \<and> delta_1s_down_px (volatilityStep state ?sh s g) = delta_1s_down_px g
    \<and> delta_1s_side_px (volatilityStep state ?sh s g) = delta_1s_side_px g
    \<and> delta_5s_up_px (volatilityStep state ?sh s g) = delta_5s_up_px g
    \<and> delta_5s_down_px (volatilityStep state ?sh s g) = delta_5s_down_px g
    \<and> delta_5s_side_px (volatilityStep state ?sh s g) = delta_5s_side_px g
    \<and> delta_30s_up_px (volatilityStep state ?sh s g) = delta_30s_up_px g
    \<and> delta_30s_down_px (volatilityStep state ?sh s g) = delta_30s_down_px g
    \<and> delta_30s_side_px (volatilityStep state ?sh s g) = delta_30s_side_px g"
    by (simp add: volatilityStep_def setVolatility_def Let_def)
  show ?thesis
    by (simp add: F vol s30 s5 s1 setDelta_def)
qed

theorem computeFeatures_delta_present_iff_witness:
  "delta_1s_up_px (computeFeatures \<lparr>timestamp = 100000, up_px = 0.6, down_px = 0.4, market = ''BTC_15m''\<rparr>
      [\<lparr>h_timestamp = 96000, h_up_px = 0.5, h_down_px = 0.5\<rparr>]) = None
   \<and> delta_5s_up_px (computeFeatures \<lparr>timestamp = 100000, up_px = 0.6, down_px = 0.4, market = ''BTC_15m''\<rparr>
      [\<lparr>h_timestamp = 96000, h_up_px = 0.5, h_down_px = 0.5\<rparr>]) \<noteq> None
   \<and> delta_30s_side_px (computeFeatures \<lparr>timestamp = 100000, up_px = 0.6, down_px = 0.4, market = ''BTC_15m''\<rparr>
      [\<lparr>h_timestamp = 96000, h_up_px = 0.5, h_down_px = 0.5\<rparr>]) \<noteq> None"
  using computeFeatures_delta_present_iff [of "\<lparr>timestamp = 100000, up_px = 0.6, down_px = 0.4, market = ''BTC_15m''\<rparr>"
      "[\<lparr>h_timestamp = 96000, h_up_px = 0.5, h_down_px = 0.5\<rparr>]"]
  by simp

section \<open>Properties of the paper-trading lifecycle\<close>

subsection \<open>Settlement\<close>

text \<open>
  C1. Settlement is idempotent. After a call of \<^verbatim>\<open>settlePosition\<close> the position is
  settled, and a second call on it, whatever the winner flags and from whatever state,
  changes neither the state (capital pool, total P&L and the rest) nor the position
  (\<^verbatim>\<open>settlementPnL\<close>, \<^verbatim>\<open>isSettled\<close> and the rest): called right after the first, it
  returns the result of the first call.
\<close>

theorem settlePosition_idempotent:
  "isSettled (snd (settlePosition st position upWon downWon))
   \<and> settlePosition (fst (settlePosition st position upWon downWon))
        (snd (settlePosition st position upWon downWon)) upWon' downWon'
      = settlePosition st position upWon downWon
   \<and> settlePosition st' (snd (settlePosition st position upWon downWon)) upWon' downWon'
      = (st', snd (settlePosition st position upWon downWon))"
  by (simp add: settlePosition_def Let_def)

text \<open>
  C9. For a position that \<^verbatim>\<open>settlePositions\<close> settles (unsettled, end date set and passed),
  with \<open>pUp\<close> and \<open>pDown\<close> the final prices it determines: the winner flags are
  \<open>pUp \<ge> 0.95\<close> and \<open>pDown \<ge> 0.95\<close>; when both hold, \<^verbatim>\<open>settlePosition\<close> values the
  position as if UP had won, the value \<open>sharesUp + arbSharesUp\<close> goes to the capital pool
  and the DOWN holdings count for nothing; the outcome is reported \<^verbatim>\<open>UNCLEAR\<close>, with the
  full cost returned, exactly when neither price reaches 0.95.
\<close>

theorem settle_double_winner_values_up:
  fixes getOrderBookPrice :: "string \<Rightarrow> real option" and now :: real and st :: PaperState
    and cid :: string and position :: MarketPosition and pUp pDown :: real
  defines "totalCost \<equiv> costUp position + costDown position
                          + arbCostUp position + arbCostDown position"
    and "R \<equiv> settleEntry getOrderBookPrice now st cid position"
  assumes "\<not> isSettled position" and "endDate position \<noteq> 0" and "endDate position \<le> now"
    and "finalPrices getOrderBookPrice st cid position = (pUp, pDown)"
  shows "R = settlePosition st position (pUp \<ge> 0.95) (pDown \<ge> 0.95)
     \<and> (pUp \<ge> 0.95 \<and> pDown \<ge> 0.95 \<longrightarrow>
          currentCapital (fst R) = currentCapital st + (sharesUp position + arbSharesUp position)
        \<and> settlementPnL (snd R) = sharesUp position + arbSharesUp position - totalCost
        \<and> s_winner (last (settlementLog (fst R))) = ''UP''
        \<and> s_value (last (settlementLog (fst R))) = sharesUp position + arbSharesUp position)
     \<and> ((s_winner (last (settlementLog (fst R))) = ''UNCLEAR'') = (pUp < 0.95 \<and> pDown < 0.95))
     \<and> (pUp < 0.95 \<and> pDown < 0.95 \<longrightarrow>
          s_value (last (settlementLog (fst R))) = totalCost
        \<and> currentCapital (fst R) = currentCapital st + totalCost)"
proof -
  have r: "R = settlePosition st position (pUp \<ge> 0.95) (pDown \<ge> 0.95)"
    using assms(3-6) by (simp add: R_def settleEntry_def)
  show ?thesis
    unfolding r using assms(3)
    by (auto simp: settlePosition_def Let_def totalCost_def)
qed

theorem settle_double_winner_values_up_witness:
  "finalPrices noOrderBook emptyState ''x''
      (expiredPosition\<lparr>currentPriceUp := 0.96, currentPriceDown := 0.97\<rparr>) = (0.96, 0.97)
   \<and> currentCapital (fst (settleEntry noOrderBook runNow emptyState ''x''
        (expiredPosition\<lparr>currentPriceUp := 0.96, currentPriceDown := 0.97\<rparr>))) = 1200
   \<and> settlementPnL (snd (settleEntry noOrderBook runNow emptyState ''x''
        (expiredPosition\<lparr>currentPriceUp := 0.96, currentPriceDown := 0.97\<rparr>))) = 200
   \<and> s_winner (last (settlementLog (fst (settleEntry noOrderBook runNow emptyState ''x''
        (expiredPosition\<lparr>currentPriceUp := 0.96, currentPriceDown := 0.97\<rparr>))))) = ''UP''
   \<and> finalPrices noOrderBook emptyState ''x'' expiredPosition = (0.6, 0.4)
   \<and> s_winner (last (settlementLog (fst (settleEntry noOrderBook runNow emptyState ''x''
        expiredPosition)))) = ''UNCLEAR''
   \<and> currentCapital (fst (settleEntry noOrderBook runNow emptyState ''x'' expiredPosition))
      = 1000"
proof -
  let ?p = "expiredPosition\<lparr>currentPriceUp := 0.96, currentPriceDown := 0.97\<rparr>"
  have a: "\<not> isSettled ?p" by (simp add: expiredPosition_def newPosition_def)
  have b: "endDate ?p \<noteq> 0"
    by (simp add: expiredPosition_def newPosition_def expiredMarket_def runNow_def runEnd_def)
  have c: "endDate ?p \<le> runNow"
    by (simp add: expiredPosition_def newPosition_def expiredMarket_def)
  have d: "finalPrices noOrderBook emptyState ''x'' ?p = (0.96, 0.97)"
    by (simp add: finalPrices_def emptyState_def)
  have v: "sharesUp ?p + arbSharesUp ?p = 1200"
    "costUp ?p + costDown ?p + arbCostUp ?p + arbCostDown ?p = 1000"
    "currentCapital emptyState = 0"
    by (simp_all add: expiredPosition_def newPosition_def exampleBuild_def emptyState_def)
  have dw: "0.95 \<le> (0.96::real) \<and> 0.95 \<le> (0.97::real)" by simp
  note t = settle_double_winner_values_up [OF a b c d, THEN conjunct2, THEN conjunct1,
      rule_format, OF dw]
  note e = t [THEN conjunct1]
  note f = t [THEN conjunct2, THEN conjunct1]
  note g = t [THEN conjunct2, THEN conjunct2, THEN conjunct1]
  from e v have e': "currentCapital (fst (settleEntry noOrderBook runNow emptyState ''x'' ?p))
      = 1200" by simp
  from f v have f': "settlementPnL (snd (settleEntry noOrderBook runNow emptyState ''x'' ?p))
      = 200" by simp
  have a2: "\<not> isSettled expiredPosition" by (simp add: expiredPosition_def newPosition_def)
  have b2: "endDate expiredPosition \<noteq> 0"
    by (simp add: expiredPosition_def newPosition_def expiredMarket_def runNow_def runEnd_def)
  have c2: "endDate expiredPosition \<le> runNow"
    by (simp add: expiredPosition_def newPosition_def expiredMarket_def)
  have d2: "finalPrices noOrderBook emptyState ''x'' expiredPosition = (0.6, 0.4)"
    by (simp add: finalPrices_def emptyState_def expiredPosition_def newPosition_def
        expiredMarket_def)
  have v2: "costUp expiredPosition + costDown expiredPosition + arbCostUp expiredPosition
      + arbCostDown expiredPosition = 1000"
    by (simp add: expiredPosition_def newPosition_def exampleBuild_def)
  have below: "(0.6::real) < 0.95 \<and> (0.4::real) < 0.95" by simp
  note u = settle_double_winner_values_up [OF a2 b2 c2 d2, THEN conjunct2, THEN conjunct2]
  from u [THEN conjunct1] below
  have g2: "s_winner (last (settlementLog (fst (settleEntry noOrderBook runNow emptyState ''x''
        expiredPosition)))) = ''UNCLEAR''" by blast
  from u [THEN conjunct2, rule_format, OF below, THEN conjunct2] v v2
  have h2: "currentCapital (fst (settleEntry noOrderBook runNow emptyState ''x''
        expiredPosition)) = 1000" by simp
  from d e' f' g d2 g2 h2 show ?thesis by blast
qed

subsection \<open>Finalizing a build\<close>

text \<open>
  C3. \<^verbatim>\<open>finalizePosition\<close> stores under the market's condition id a position whose shares per
  side are the invested amount divided by the side's average fill price (for a positive
  average price; 0 otherwise) and whose costs are the invested amounts. In particular
  \<open>investedUp = 600\<close>, \<open>avgPriceUp = 0.5\<close>, \<open>investedDown = 400\<close>, \<open>avgPriceDown = 0.4\<close>
  give \<open>sharesUp = 1200\<close>, \<open>sharesDown = 1000\<close>, \<open>costUp = 600\<close>, \<open>costDown = 400\<close>.
\<close>

theorem finalizePosition_shares:
  fixes now :: real and st :: PaperState and mkt :: DiscoveredMarket
    and buildState :: PositionBuildState
  defines "p \<equiv> newPosition now mkt buildState"
  shows "map_of (positions (finalizePosition now st mkt buildState)) (m_conditionId mkt) = Some p
     \<and> (0 < avgPriceUp buildState \<longrightarrow> sharesUp p = investedUp buildState / avgPriceUp buildState)
     \<and> (0 < avgPriceDown buildState \<longrightarrow>
          sharesDown p = investedDown buildState / avgPriceDown buildState)
     \<and> costUp p = investedUp buildState \<and> costDown p = investedDown buildState
     \<and> (investedUp buildState = 600 \<and> avgPriceUp buildState = 0.5
          \<and> investedDown buildState = 400 \<and> avgPriceDown buildState = 0.4 \<longrightarrow>
          sharesUp p = 1200 \<and> sharesDown p = 1000 \<and> costUp p = 600 \<and> costDown p = 400)"
proof -
  have stored: "map_of (positions (finalizePosition now st mkt buildState)) (m_conditionId mkt)
      = Some p"
    by (simp add: p_def finalizePosition_def Let_def update_conv')
  have up: "0 < avgPriceUp buildState \<longrightarrow>
      sharesUp p = investedUp buildState / avgPriceUp buildState"
    by (simp add: p_def newPosition_def)
  have down: "0 < avgPriceDown buildState \<longrightarrow>
      sharesDown p = investedDown buildState / avgPriceDown buildState"
    by (simp add: p_def newPosition_def)
  have costs: "costUp p = investedUp buildState \<and> costDown p = investedDown buildState"
    by (simp add: p_def newPosition_def)
  have example: "investedUp buildState = 600 \<and> avgPriceUp buildState = 0.5
      \<and> investedDown buildState = 400 \<and> avgPriceDown buildState = 0.4 \<longrightarrow>
      sharesUp p = 1200 \<and> sharesDown p = 1000 \<and> costUp p = 600 \<and> costDown p = 400"
  proof
    assume h: "investedUp buildState = 600 \<and> avgPriceUp buildState = 0.5
      \<and> investedDown buildState = 400 \<and> avgPriceDown buildState = 0.4"
    then have iu: "investedUp buildState = 600" and au: "avgPriceUp buildState = 0.5"
      and id: "investedDown buildState = 400" and ad: "avgPriceDown buildState = 0.4"
      by blast+
    have "sharesUp p = 1200" using up unfolding iu au by simp
    moreover have "sharesDown p = 1000" using down unfolding id ad by simp
    moreover have "costUp p = 600 \<and> costDown p = 400" using costs unfolding iu id .
    ultimately show "sharesUp p = 1200 \<and> sharesDown p = 1000 \<and> costUp p = 600 \<and> costDown p = 400"
      by blast
  qed
  from stored up down costs example show ?thesis by blast
qed

theorem finalizePosition_shares_witness:
  "map_of (positions (finalizePosition runNow emptyState (runMarket 0) exampleBuild)) (runId 0)
     = Some (newPosition runNow (runMarket 0) exampleBuild)
   \<and> sharesUp (newPosition runNow (runMarket 0) exampleBuild) = 1200
   \<and> sharesDown (newPosition runNow (runMarket 0) exampleBuild) = 1000
   \<and> costUp (newPosition runNow (runMarket 0) exampleBuild) = 600
   \<and> costDown (newPosition runNow (runMarket 0) exampleBuild) = 400"
proof -
  have h: "investedUp exampleBuild = 600 \<and> avgPriceUp exampleBuild = 0.5
      \<and> investedDown exampleBuild = 400 \<and> avgPriceDown exampleBuild = 0.4"
    by (simp add: exampleBuild_def)
  have m: "m_conditionId (runMarket 0) = runId 0" by (simp add: runMarket_def)
  from finalizePosition_shares [of runNow emptyState "runMarket 0" exampleBuild] h m
  show ?thesis by simp
qed

subsection \<open>The arbitrage cycle key\<close>

text \<open>What a call of \<^verbatim>\<open>executeArbitrageTrade\<close> does on each of its paths.\<close>

lemma arb_key_recorded_noop:
  assumes "cycleKey position \<in> set (processedCycles st)"
  shows "executeArbitrageTrade env now st position mkt = (st, position)"
  using assms
  by (simp add: executeArbitrageTrade_def Let_def split: option.splits prod.splits)

lemma arb_keeps_cycles:
  "set (processedCycles st) \<subseteq> set (processedCycles (fst (executeArbitrageTrade env now st position mkt)))"
  by (auto simp: executeArbitrageTrade_def Let_def split: option.splits prod.splits)

lemma arb_cycleKey_snd:
  "cycleKey (snd (executeArbitrageTrade env now st position mkt)) = cycleKey position"
  by (auto simp: executeArbitrageTrade_def Let_def cycleKey_def split: option.splits prod.splits)

lemma arb_low_capital:
  assumes "\<not> hasArbitragePosition position" "\<not> isSettled position"
    and "(if endDate position < 10000000000 then endDate position * 1000 else endDate position) - now \<le> EXPIRATION_WINDOW_MS"
    and "10000 \<le> (if endDate position < 10000000000 then endDate position * 1000 else endDate position) - now"
    and "clearWinner (priceUp mkt) (priceDown mkt) = Some wl"
    and "cycleKey position \<notin> set (processedCycles st)"
    and "min (currentCapital st) (PAPER_MAX_TRADE env) < PAPER_MIN_TRADE env"
  shows "executeArbitrageTrade env now st position mkt
         = (st\<lparr>processedCycles := processedCycles st @ [cycleKey position]\<rparr>, position)"
  using assms
  by (cases wl) (simp add: executeArbitrageTrade_def Let_def)

lemma arb_purchase:
  assumes "\<not> hasArbitragePosition position" "\<not> isSettled position"
    and "(if endDate position < 10000000000 then endDate position * 1000 else endDate position) - now \<le> EXPIRATION_WINDOW_MS"
    and "10000 \<le> (if endDate position < 10000000000 then endDate position * 1000 else endDate position) - now"
    and "clearWinner (priceUp mkt) (priceDown mkt) = Some (UP, lp)"
    and "cycleKey position \<notin> set (processedCycles st)"
    and "\<not> min (currentCapital st) (PAPER_MAX_TRADE env) < PAPER_MIN_TRADE env"
  shows "currentCapital (fst (executeArbitrageTrade env now st position mkt))
           = currentCapital st - min (currentCapital st) (PAPER_MAX_TRADE env)"
    and "arbCostDown (snd (executeArbitrageTrade env now st position mkt))
           = arbCostDown position + min (currentCapital st) (PAPER_MAX_TRADE env)"
    and "arbSharesDown (snd (executeArbitrageTrade env now st position mkt))
           = arbSharesDown position + min (currentCapital st) (PAPER_MAX_TRADE env) / lp"
    and "hasArbitragePosition (snd (executeArbitrageTrade env now st position mkt))"
    and "paperTrades (fst (executeArbitrageTrade env now st position mkt))
           = paperTrades st @ [\<lparr>t_conditionId = conditionId position, t_side = DOWN,
               t_action = ''BUY'', t_shares = min (currentCapital st) (PAPER_MAX_TRADE env) / lp,
               t_cost = min (currentCapital st) (PAPER_MAX_TRADE env), t_price = lp\<rparr>]"
  using assms
  by (simp_all add: executeArbitrageTrade_def Let_def)

lemma arb_change_records:
  assumes "executeArbitrageTrade env now st position mkt \<noteq> (st, position)"
  shows "cycleKey position \<notin> set (processedCycles st)
       \<and> cycleKey position \<in> set (processedCycles (fst (executeArbitrageTrade env now st position mkt)))"
  using assms
  by (auto simp: executeArbitrageTrade_def Let_def split: option.splits prod.splits if_splits)

lemma arb_flag_noop:
  assumes "hasArbitragePosition position"
  shows "executeArbitrageTrade env now st position mkt = (st, position)"
  using assms by (simp add: executeArbitrageTrade_def)

lemma arb_outcomes:
  "executeArbitrageTrade env now st position mkt = (st, position)
   \<or> executeArbitrageTrade env now st position mkt
       = (st\<lparr>processedCycles := processedCycles st @ [cycleKey position]\<rparr>, position)
   \<or> hasArbitragePosition (snd (executeArbitrageTrade env now st position mkt))"
  by (simp add: executeArbitrageTrade_def Let_def split: option.splits prod.splits)

lemma arb_purchase_sets_flag:
  assumes "currentCapital (fst (executeArbitrageTrade env now st position mkt)) \<noteq> currentCapital st
         \<or> paperTrades (fst (executeArbitrageTrade env now st position mkt)) \<noteq> paperTrades st
         \<or> snd (executeArbitrageTrade env now st position mkt) \<noteq> position"
  shows "hasArbitragePosition (snd (executeArbitrageTrade env now st position mkt))"
proof -
  let ?R = "executeArbitrageTrade env now st position mkt"
  have a: "?R \<noteq> (st, position)" using assms by auto
  have b: "?R \<noteq> (st\<lparr>processedCycles := processedCycles st @ [cycleKey position]\<rparr>, position)"
    using assms by auto
  from arb_outcomes [of env now st position mkt] a b show ?thesis by blast
qed

lemma processMarket_arbitraged_noop:
  assumes "map_of (positions st) cid = Some p" and "hasArbitragePosition p"
    and "map_of (buildingPositions st) cid = None"
  shows "processMarket build env now callNow st cid mkt = st"
  using assms by (simp add: processMarket_def)

text \<open>\<^verbatim>\<open>settlePositions\<close> touches \<^verbatim>\<open>processedCycles\<close> only through the pruning, and not at all
  while no more than 1000 keys are recorded.\<close>

lemma settleLoop_skip:
  assumes "\<forall>(cid, p)\<in>set ps. \<not> isSettled p \<and> endDate p > now"
  shows "settleLoop f now st ps = (st, ps)"
  using assms
  by (induction ps arbitrary: st) (auto simp: settleEntry_def)

lemma settleLoop_cycles:
  "processedCycles (fst (settleLoop f now st ps)) = processedCycles st"
proof (induction ps arbitrary: st)
  case Nil
  then show ?case by simp
next
  case (Cons a ps)
  obtain cid p where a: "a = (cid, p)" by (cases a)
  have e: "processedCycles (fst (settleEntry f now st cid p)) = processedCycles st"
    by (simp add: settleEntry_def settlePosition_def Let_def split: prod.splits)
  show ?case
    using Cons.IH [of "fst (settleEntry f now st cid p)"] e
    by (simp add: a case_prod_beta)
qed

lemma settlePositions_cycles:
  "processedCycles (settlePositions f now st) = pruneCycles (processedCycles st)"
  using settleLoop_cycles [of f now st "positions st"]
  by (simp add: settlePositions_def case_prod_beta)

lemma settlePositions_keeps_small:
  assumes "length (processedCycles st) \<le> 1000"
  shows "processedCycles (settlePositions f now st) = processedCycles st"
  using assms by (simp add: settlePositions_cycles pruneCycles_def)

text \<open>The run over 1001 markets: the pass records the 1001 keys without a purchase, the
  settlement of \<open>x\<close> returns 1000 to the pool, and the pruning keeps the newest 500 keys.\<close>

lemma runId_inj: "(runId i = runId j) = (i = j)"
proof
  assume "runId i = runId j"
  then have "length (runId i) = length (runId j)" by simp
  then show "i = j" by (simp add: runId_def)
qed simp

lemma runPosition_flags:
  "\<not> hasArbitragePosition (runPosition i)" "\<not> isSettled (runPosition i)"
  "endDate (runPosition i) = runEnd" "conditionId (runPosition i) = runId i"
  by (simp_all add: runPosition_def newPosition_def runMarket_def)

lemma runPosition_key: "cycleKey (runPosition i) = (runId i, \<lfloor>runEnd / 60000\<rfloor>)"
  by (simp add: cycleKey_def runPosition_flags)

lemma runKey_inj: "(cycleKey (runPosition i) = cycleKey (runPosition j)) = (i = j)"
  by (simp add: runPosition_key runId_inj)

lemma runMarket_winner:
  "clearWinner (priceUp (runMarket i)) (priceDown (runMarket i)) = Some (UP, 0.03)"
  by (simp add: clearWinner_def runMarket_def CLEAR_OUTCOME_THRESHOLD_def
      MAX_LOSER_PRICE_def MIN_LOSER_PRICE_def)

lemma run_window:
  assumes "runNow \<le> now" "now \<le> runNow + 50000"
  shows "(if endDate (runPosition i) < 10000000000 then endDate (runPosition i) * 1000
          else endDate (runPosition i)) - now \<le> EXPIRATION_WINDOW_MS"
    and "10000 \<le> (if endDate (runPosition i) < 10000000000 then endDate (runPosition i) * 1000
          else endDate (runPosition i)) - now"
  using assms
  by (simp_all add: runPosition_flags runEnd_def runNow_def EXPIRATION_WINDOW_MS_def)

lemma run_lookup:
  assumes "j \<in> set is"
  shows "map_of (map (\<lambda>i. (runId i, runPosition i)) is) (runId j) = Some (runPosition j)"
  using assms by (induction "is") (auto simp: runId_inj)

lemma runState_lookup:
  assumes "j < 1001"
  shows "map_of (positions runState) (runId j) = Some (runPosition j)"
proof -
  have "runId j \<noteq> ''x''" by (simp add: runId_def)
  then show ?thesis
    using assms by (simp add: runState_def emptyState_def run_lookup)
qed

lemma runMarket_live:
  assumes "now < runEnd"
  shows "\<not> (m_endDate (runMarket i) \<noteq> 0 \<and> m_endDate (runMarket i) > 0
            \<and> m_endDate (runMarket i) \<le> now)"
    and "m_assetUp (runMarket i) \<noteq> [] \<and> m_assetDown (runMarket i) \<noteq> []"
  using assms by (simp_all add: runMarket_def)

lemma processMarket_low_capital:
  assumes "now < runEnd" and "runNow \<le> callNow" and "callNow \<le> runNow + 50000"
    and "map_of (positions st) (runId i) = Some (runPosition i)"
    and "map_of (buildingPositions st) (runId i) = None"
    and "cycleKey (runPosition i) \<notin> set (processedCycles st)"
    and "min (currentCapital st) (PAPER_MAX_TRADE env) < PAPER_MIN_TRADE env"
  shows "processMarket build env now callNow st (runId i) (runMarket i)
         = st\<lparr>processedCycles := processedCycles st @ [cycleKey (runPosition i)]\<rparr>"
proof -
  have step: "executeArbitrageTrade env callNow st (runPosition i) (runMarket i)
      = (st\<lparr>processedCycles := processedCycles st @ [cycleKey (runPosition i)]\<rparr>, runPosition i)"
    using assms(6,7) run_window [OF assms(2,3)]
    by (intro arb_low_capital [OF runPosition_flags(1,2) _ _ runMarket_winner]) auto
  have live: "\<not> (m_endDate (runMarket i) \<noteq> 0 \<and> m_endDate (runMarket i) > 0
            \<and> m_endDate (runMarket i) \<le> now)"
    by (rule runMarket_live(1) [OF assms(1)])
  have same: "AList.update (runId i) (runPosition i) (positions st) = positions st"
    by (rule update_triv [OF assms(4)])
  show ?thesis
    unfolding processMarket_def
    using live runMarket_live(2) [OF assms(1), of i]
    by (simp add: assms(4,5) runPosition_flags step same)
qed

lemma marketLoop_low_capital:
  assumes "now < runEnd" and "\<forall>cid. runNow \<le> clock cid \<and> clock cid \<le> runNow + 50000"
    and "distinct is"
    and "\<forall>i\<in>set is. map_of (positions st) (runId i) = Some (runPosition i)"
    and "\<forall>i\<in>set is. map_of (buildingPositions st) (runId i) = None"
    and "\<forall>i\<in>set is. cycleKey (runPosition i) \<notin> set (processedCycles st)"
    and "min (currentCapital st) (PAPER_MAX_TRADE env) < PAPER_MIN_TRADE env"
  shows "marketLoop build env now clock st (map (\<lambda>i. (runId i, runMarket i)) is)
         = st\<lparr>processedCycles := processedCycles st @ map (\<lambda>i. cycleKey (runPosition i)) is\<rparr>"
  using assms(3-7)
proof (induction "is" arbitrary: st)
  case Nil
  then show ?case by simp
next
  case (Cons i "is")
  let ?st1 = "st\<lparr>processedCycles := processedCycles st @ [cycleKey (runPosition i)]\<rparr>"
  have step: "processMarket build env now (clock i') st (runId i) (runMarket i) = ?st1" for i'
    using Cons.prems assms(2)
    by (intro processMarket_low_capital [OF assms(1)]) auto
  have "marketLoop build env now clock ?st1 (map (\<lambda>i. (runId i, runMarket i)) is)
      = ?st1\<lparr>processedCycles := processedCycles ?st1 @ map (\<lambda>i. cycleKey (runPosition i)) is\<rparr>"
    using Cons.prems by (intro Cons.IH) (auto simp: runKey_inj)
  then show ?case
    by (simp add: step)
qed

lemma runAfterTick_eq:
  "runAfterTick = runState\<lparr>processedCycles := map (\<lambda>i. cycleKey (runPosition i)) [0..<1001]\<rparr>"
proof -
  have "marketLoop idleBuild defaultEnv runNow runClock runState
          (map (\<lambda>i. (runId i, runMarket i)) [0..<1001])
      = runState\<lparr>processedCycles := processedCycles runState
                     @ map (\<lambda>i. cycleKey (runPosition i)) [0..<1001]\<rparr>"
  proof (rule marketLoop_low_capital)
    show "runNow < runEnd" by (simp add: runNow_def)
    show "\<forall>cid. runNow \<le> runClock cid \<and> runClock cid \<le> runNow + 50000"
      by (simp add: runClock_def)
    show "distinct [0..<1001]" by simp
    show "\<forall>i\<in>set [0..<1001]. map_of (positions runState) (runId i) = Some (runPosition i)"
      by (simp add: runState_lookup)
    show "\<forall>i\<in>set [0..<1001]. map_of (buildingPositions runState) (runId i) = None"
      by (simp add: runState_def emptyState_def)
    show "\<forall>i\<in>set [0..<1001]. cycleKey (runPosition i) \<notin> set (processedCycles runState)"
      by (simp add: runState_def emptyState_def)
    show "min (currentCapital runState) (PAPER_MAX_TRADE defaultEnv) < PAPER_MIN_TRADE defaultEnv"
      by (simp add: runState_def emptyState_def defaultEnv_def)
  qed
  then show ?thesis
    by (simp add: runAfterTick_def marketPass_def runState_def emptyState_def)
qed

lemma expired_not_run: "map_of (map (\<lambda>i. (runId i, runMarket i)) is) ''x'' = None"
  by (induction "is") (simp_all add: runId_def)

lemma expired_settle:
  assumes "discoveredMarkets st = map (\<lambda>i. (runId i, runMarket i)) is"
  shows "settleEntry noOrderBook runNow st ''x'' expiredPosition
         = settlePosition st expiredPosition False False"
  using assms
  by (simp add: settleEntry_def finalPrices_def expired_not_run expiredPosition_def
      newPosition_def expiredMarket_def runNow_def runEnd_def)

lemma run_positions_skip:
  "settleLoop f runNow st (map (\<lambda>i. (runId i, runPosition i)) is)
   = (st, map (\<lambda>i. (runId i, runPosition i)) is)"
  by (intro settleLoop_skip) (auto simp: runPosition_flags runNow_def)

lemma runAfterSettle_capital: "currentCapital runAfterSettle = 1000"
  and runAfterSettle_trades: "paperTrades runAfterSettle = []"
proof -
  let ?st = "runState\<lparr>processedCycles := map (\<lambda>i. cycleKey (runPosition i)) [0..<1001]\<rparr>"
  have d: "discoveredMarkets ?st = map (\<lambda>i. (runId i, runMarket i)) [0..<1001]"
    by (simp add: runState_def)
  have p: "positions ?st = (''x'', expiredPosition) # map (\<lambda>i. (runId i, runPosition i)) [0..<1001]"
    by (simp add: runState_def)
  have s: "settlePositions noOrderBook runNow ?st
      = (fst (settlePosition ?st expiredPosition False False))
          \<lparr>positions := (''x'', snd (settlePosition ?st expiredPosition False False))
                          # map (\<lambda>i. (runId i, runPosition i)) [0..<1001],
            processedCycles := pruneCycles (processedCycles
                (fst (settlePosition ?st expiredPosition False False)))\<rparr>"
    unfolding settlePositions_def p
    by (simp add: expired_settle [OF d] run_positions_skip split: prod.splits)
  have c: "currentCapital (fst (settlePosition ?st expiredPosition False False)) = 1000"
    by (simp add: settlePosition_def Let_def expiredPosition_def newPosition_def
        exampleBuild_def runState_def emptyState_def)
  have t: "paperTrades (fst (settlePosition ?st expiredPosition False False)) = []"
    by (simp add: settlePosition_def Let_def expiredPosition_def newPosition_def
        runState_def emptyState_def)
  show "currentCapital runAfterSettle = 1000"
    unfolding runAfterSettle_def runAfterTick_eq s using c by simp
  show "paperTrades runAfterSettle = []"
    unfolding runAfterSettle_def runAfterTick_eq s using t by simp
qed

lemma runAfterSettle_cycles:
  "processedCycles runAfterSettle = map (\<lambda>i. cycleKey (runPosition i)) [501..<1001]"
  by (simp add: runAfterSettle_def settlePositions_cycles runAfterTick_eq pruneCycles_def
      drop_map)

lemma run_key_pruned:
  assumes "i \<le> 500"
  shows "cycleKey (runPosition i) \<notin> set (processedCycles runAfterSettle)"
  using assms by (auto simp: runAfterSettle_cycles runKey_inj)

lemma runAfterSettle_lookup:
  assumes "j < 1001"
  shows "map_of (positions runAfterSettle) (runId j) = Some (runPosition j)"
proof -
  have ne: "runId j \<noteq> ''x''" by (simp add: runId_def)
  let ?st = "runState\<lparr>processedCycles := map (\<lambda>i. cycleKey (runPosition i)) [0..<1001]\<rparr>"
  have d: "discoveredMarkets ?st = map (\<lambda>i. (runId i, runMarket i)) [0..<1001]"
    by (simp add: runState_def)
  have p: "positions ?st
      = (''x'', expiredPosition) # map (\<lambda>i. (runId i, runPosition i)) [0..<1001]"
    by (simp add: runState_def)
  have "positions (settlePositions noOrderBook runNow ?st)
      = (''x'', snd (settlePosition ?st expiredPosition False False))
          # map (\<lambda>i. (runId i, runPosition i)) [0..<1001]"
    unfolding settlePositions_def p
    by (simp add: expired_settle [OF d] run_positions_skip split: prod.splits)
  then have pos: "positions runAfterSettle
      = (''x'', snd (settlePosition ?st expiredPosition False False))
          # map (\<lambda>i. (runId i, runPosition i)) [0..<1001]"
    unfolding runAfterSettle_def runAfterTick_eq .
  have "j \<in> set [0..<1001]" using assms by simp
  then have "map_of (map (\<lambda>i. (runId i, runPosition i)) [0..<1001]) (runId j)
      = Some (runPosition j)"
    by (rule run_lookup)
  then show ?thesis
    unfolding pos using ne by simp
qed

lemma run_first_purchase:
  "currentCapital (fst (executeArbitrageTrade defaultEnv runNow
      (emptyState\<lparr>currentCapital := 100\<rparr>) (runPosition 0) (runMarket 0))) = 85"
proof -
  let ?st = "emptyState\<lparr>currentCapital := 100\<rparr>"
  have "currentCapital (fst (executeArbitrageTrade defaultEnv runNow ?st (runPosition 0)
        (runMarket 0)))
      = currentCapital ?st - min (currentCapital ?st) (PAPER_MAX_TRADE defaultEnv)"
    by (rule arb_purchase(1) [OF runPosition_flags(1,2) run_window(1) run_window(2)
          runMarket_winner])
       (simp_all add: emptyState_def defaultEnv_def)
  then show ?thesis by (simp add: defaultEnv_def)
qed

text \<open>
  C2, as the code has it. At most one arbitrage purchase is ever executed on a market's
  position. A call of \<^verbatim>\<open>executeArbitrageTrade\<close> that purchases (it changes the capital, logs
  a trade or changes the position) finds the cycle key of its market and expiry minute
  unrecorded, leaves it recorded and sets \<^verbatim>\<open>hasArbitragePosition\<close>; from then on every call
  on that position, from any state and at any time, whether the key is still recorded or
  not, performs no purchase and returns state and position as they were, and the main
  loop, reading that position from \<^verbatim>\<open>positions\<close>, leaves the state as it is. Apart from
  that, while the key is in \<^verbatim>\<open>processedCycles\<close>, every call for the same market and
  expiry-minute bucket performs no purchase and changes nothing; so does a second call
  made right after a call that left the key recorded, as within one tick window.
\<close>

theorem arbitrage_at_most_once:
  fixes env :: PaperEnv and now :: real and st :: PaperState and position :: MarketPosition
    and mkt :: DiscoveredMarket
  defines "R \<equiv> executeArbitrageTrade env now st position mkt"
  shows "(currentCapital (fst R) \<noteq> currentCapital st \<or> paperTrades (fst R) \<noteq> paperTrades st
            \<or> snd R \<noteq> position \<longrightarrow>
          cycleKey position \<notin> set (processedCycles st)
        \<and> cycleKey position \<in> set (processedCycles (fst R))
        \<and> hasArbitragePosition (snd R)
        \<and> executeArbitrageTrade env' now' st' (snd R) mkt' = (st', snd R)
        \<and> (map_of (positions st') cid = Some (snd R)
              \<and> map_of (buildingPositions st') cid = None \<longrightarrow>
            processMarket build env' now' callNow' st' cid mkt' = st'))
     \<and> (cycleKey position' = cycleKey position
           \<and> cycleKey position \<in> set (processedCycles st'') \<longrightarrow>
          executeArbitrageTrade env' now' st'' position' mkt' = (st'', position'))
     \<and> (cycleKey position \<in> set (processedCycles (fst R)) \<longrightarrow>
          executeArbitrageTrade env' now' (fst R) (snd R) mkt' = R)"
proof -
  have first: "currentCapital (fst R) \<noteq> currentCapital st \<or> paperTrades (fst R) \<noteq> paperTrades st
            \<or> snd R \<noteq> position \<longrightarrow>
          cycleKey position \<notin> set (processedCycles st)
        \<and> cycleKey position \<in> set (processedCycles (fst R))
        \<and> hasArbitragePosition (snd R)
        \<and> executeArbitrageTrade env' now' st' (snd R) mkt' = (st', snd R)
        \<and> (map_of (positions st') cid = Some (snd R)
              \<and> map_of (buildingPositions st') cid = None \<longrightarrow>
            processMarket build env' now' callNow' st' cid mkt' = st')"
  proof
    assume ch: "currentCapital (fst R) \<noteq> currentCapital st
        \<or> paperTrades (fst R) \<noteq> paperTrades st \<or> snd R \<noteq> position"
    then have "R \<noteq> (st, position)" by auto
    then have keys: "cycleKey position \<notin> set (processedCycles st)
        \<and> cycleKey position \<in> set (processedCycles (fst R))"
      unfolding R_def by (rule arb_change_records)
    have flag: "hasArbitragePosition (snd R)"
      using ch unfolding R_def by (rule arb_purchase_sets_flag)
    have again: "executeArbitrageTrade env' now' st' (snd R) mkt' = (st', snd R)"
      using flag by (rule arb_flag_noop)
    have loop: "map_of (positions st') cid = Some (snd R)
        \<and> map_of (buildingPositions st') cid = None \<longrightarrow>
        processMarket build env' now' callNow' st' cid mkt' = st'"
      using flag by (simp add: processMarket_arbitraged_noop)
    from keys flag again loop
    show "cycleKey position \<notin> set (processedCycles st)
        \<and> cycleKey position \<in> set (processedCycles (fst R))
        \<and> hasArbitragePosition (snd R)
        \<and> executeArbitrageTrade env' now' st' (snd R) mkt' = (st', snd R)
        \<and> (map_of (positions st') cid = Some (snd R)
              \<and> map_of (buildingPositions st') cid = None \<longrightarrow>
            processMarket build env' now' callNow' st' cid mkt' = st')"
      by blast
  qed
  have recorded: "cycleKey position' = cycleKey position
        \<and> cycleKey position \<in> set (processedCycles st'') \<longrightarrow>
      executeArbitrageTrade env' now' st'' position' mkt' = (st'', position')"
  proof
    assume "cycleKey position' = cycleKey position
        \<and> cycleKey position \<in> set (processedCycles st'')"
    then have "cycleKey position' \<in> set (processedCycles st'')" by simp
    then show "executeArbitrageTrade env' now' st'' position' mkt' = (st'', position')"
      by (rule arb_key_recorded_noop)
  qed
  have second: "cycleKey position \<in> set (processedCycles (fst R)) \<longrightarrow>
      executeArbitrageTrade env' now' (fst R) (snd R) mkt' = R"
  proof
    assume "cycleKey position \<in> set (processedCycles (fst R))"
    then have "cycleKey (snd R) \<in> set (processedCycles (fst R))"
      by (simp add: R_def arb_cycleKey_snd)
    then have "executeArbitrageTrade env' now' (fst R) (snd R) mkt' = (fst R, snd R)"
      by (rule arb_key_recorded_noop)
    then show "executeArbitrageTrade env' now' (fst R) (snd R) mkt' = R" by simp
  qed
  from first recorded second show ?thesis by blast
qed

text \<open>
  An instance: with 100 in the pool the call for market 0 buys for 15. A later call on
  the returned position buys nothing, even from a state in which no key is recorded; the
  main loop, finding that position under the market's id, changes nothing; and with the
  key recorded, a call on the market's position as it was before the purchase, and a
  second call right after the first, buy nothing either.
\<close>

theorem arbitrage_at_most_once_witness:
  "currentCapital (fst (executeArbitrageTrade defaultEnv runNow
       (emptyState\<lparr>currentCapital := 100\<rparr>) (runPosition 0) (runMarket 0))) = 85
   \<and> hasArbitragePosition (snd (executeArbitrageTrade defaultEnv runNow
       (emptyState\<lparr>currentCapital := 100\<rparr>) (runPosition 0) (runMarket 0)))
   \<and> executeArbitrageTrade defaultEnv (runNow + 1000) (emptyState\<lparr>currentCapital := 100\<rparr>)
        (snd (executeArbitrageTrade defaultEnv runNow
           (emptyState\<lparr>currentCapital := 100\<rparr>) (runPosition 0) (runMarket 0)))
        (runMarket 0)
      = (emptyState\<lparr>currentCapital := 100\<rparr>,
         snd (executeArbitrageTrade defaultEnv runNow
           (emptyState\<lparr>currentCapital := 100\<rparr>) (runPosition 0) (runMarket 0)))
   \<and> processMarket idleBuild defaultEnv (runNow + 1000) (runNow + 1000)
        (emptyState\<lparr>currentCapital := 100,
           positions := [(runId 0, snd (executeArbitrageTrade defaultEnv runNow
             (emptyState\<lparr>currentCapital := 100\<rparr>) (runPosition 0) (runMarket 0)))]\<rparr>)
        (runId 0) (runMarket 0)
      = emptyState\<lparr>currentCapital := 100,
           positions := [(runId 0, snd (executeArbitrageTrade defaultEnv runNow
             (emptyState\<lparr>currentCapital := 100\<rparr>) (runPosition 0) (runMarket 0)))]\<rparr>
   \<and> executeArbitrageTrade defaultEnv (runNow + 1000)
        (fst (executeArbitrageTrade defaultEnv runNow
           (emptyState\<lparr>currentCapital := 100\<rparr>) (runPosition 0) (runMarket 0)))
        (runPosition 0) (runMarket 0)
      = (fst (executeArbitrageTrade defaultEnv runNow
           (emptyState\<lparr>currentCapital := 100\<rparr>) (runPosition 0) (runMarket 0)), runPosition 0)
   \<and> executeArbitrageTrade defaultEnv (runNow + 1000)
        (fst (executeArbitrageTrade defaultEnv runNow
           (emptyState\<lparr>currentCapital := 100\<rparr>) (runPosition 0) (runMarket 0)))
        (snd (executeArbitrageTrade defaultEnv runNow
           (emptyState\<lparr>currentCapital := 100\<rparr>) (runPosition 0) (runMarket 0)))
        (runMarket 0)
      = executeArbitrageTrade defaultEnv runNow
          (emptyState\<lparr>currentCapital := 100\<rparr>) (runPosition 0) (runMarket 0)"
proof -
  let ?st = "emptyState\<lparr>currentCapital := 100\<rparr>"
  let ?R = "executeArbitrageTrade defaultEnv runNow ?st (runPosition 0) (runMarket 0)"
  let ?st' = "emptyState\<lparr>currentCapital := 100, positions := [(runId 0, snd ?R)]\<rparr>"
  have cap: "currentCapital (fst ?R) = 85" by (rule run_first_purchase)
  have "currentCapital ?st = 100" by simp
  with cap have ch: "currentCapital (fst ?R) \<noteq> currentCapital ?st
      \<or> paperTrades (fst ?R) \<noteq> paperTrades ?st \<or> snd ?R \<noteq> runPosition 0"
    by simp
  note t = arbitrage_at_most_once [where env = defaultEnv and now = runNow and st = ?st
      and position = "runPosition 0" and mkt = "runMarket 0" and env' = defaultEnv
      and now' = "runNow + 1000" and mkt' = "runMarket 0" and cid = "runId 0"
      and build = idleBuild and callNow' = "runNow + 1000"
      and position' = "runPosition 0" and st'' = "fst ?R"]
  note a = t [THEN conjunct1, rule_format, OF ch]
  have key: "cycleKey (runPosition 0) \<in> set (processedCycles (fst ?R))"
    using a by blast
  have flag: "hasArbitragePosition (snd ?R)" using a by blast
  have again: "executeArbitrageTrade defaultEnv (runNow + 1000) ?st (snd ?R) (runMarket 0)
      = (?st, snd ?R)"
    using a [where st' = ?st] by blast
  have store: "map_of (positions ?st') (runId 0) = Some (snd ?R)
      \<and> map_of (buildingPositions ?st') (runId 0) = None"
    by (simp add: emptyState_def)
  have loop: "processMarket idleBuild defaultEnv (runNow + 1000) (runNow + 1000) ?st'
      (runId 0) (runMarket 0) = ?st'"
    using a [where st' = ?st'] store by blast
  have fresh: "executeArbitrageTrade defaultEnv (runNow + 1000) (fst ?R) (runPosition 0)
      (runMarket 0) = (fst ?R, runPosition 0)"
    using t [THEN conjunct2, THEN conjunct1] key by blast
  have twice: "executeArbitrageTrade defaultEnv (runNow + 1000) (fst ?R) (snd ?R)
      (runMarket 0) = ?R"
    using t [THEN conjunct2, THEN conjunct2] key by blast
  from cap flag again loop fresh twice show ?thesis by blast
qed

text \<open>
  C2 as the specification states it fails in one respect. The number of purchases is
  not what fails: it stays at one. What fails is that a recorded key blocks every later
  call for the market and bucket, since a key recorded without a purchase does not stay
  recorded for ever. In the run over 1001 markets the pool is empty, so the pass, calling
  \<^verbatim>\<open>executeArbitrageTrade\<close> on the position stored for market 500, records its key and buys
  nothing; the \<^verbatim>\<open>settlePositions\<close> call of the same iteration finds 1001 keys, prunes the
  oldest 501 and returns 1000 to the pool; one second later, in the same expiration
  window, the call on the same stored position spends 15 and raises the position's
  arbitrage cost and shares, the first trade of the run.
\<close>

theorem cycleKey_pruned_counterexample:
  "map_of (positions runState) (runId 500) = Some (runPosition 500)
   \<and> cycleKey (runPosition 500) \<in> set (processedCycles runAfterTick)
   \<and> paperTrades runAfterTick = []
   \<and> map_of (positions runAfterSettle) (runId 500) = Some (runPosition 500)
   \<and> cycleKey (runPosition 500) \<notin> set (processedCycles runAfterSettle)
   \<and> paperTrades runAfterSettle = []
   \<and> currentCapital (fst (executeArbitrageTrade defaultEnv (runNow + 1000) runAfterSettle
        (runPosition 500) (runMarket 500))) = currentCapital runAfterSettle - 15
   \<and> arbCostDown (snd (executeArbitrageTrade defaultEnv (runNow + 1000) runAfterSettle
        (runPosition 500) (runMarket 500))) = arbCostDown (runPosition 500) + 15
   \<and> arbSharesDown (snd (executeArbitrageTrade defaultEnv (runNow + 1000) runAfterSettle
        (runPosition 500) (runMarket 500))) = arbSharesDown (runPosition 500) + 500
   \<and> length (paperTrades (fst (executeArbitrageTrade defaultEnv (runNow + 1000) runAfterSettle
        (runPosition 500) (runMarket 500)))) = 1"
proof -
  have l0: "map_of (positions runState) (runId 500) = Some (runPosition 500)"
    by (rule runState_lookup) simp
  have l1: "map_of (positions runAfterSettle) (runId 500) = Some (runPosition 500)"
    by (rule runAfterSettle_lookup) simp
  have rec: "cycleKey (runPosition 500) \<in> set (processedCycles runAfterTick)"
    by (simp add: runAfterTick_eq)
  have none: "paperTrades runAfterTick = []"
    by (simp add: runAfterTick_eq runState_def emptyState_def)
  have v1: "(if endDate (runPosition 500) < 10000000000 then endDate (runPosition 500) * 1000
          else endDate (runPosition 500)) - (runNow + 1000) \<le> EXPIRATION_WINDOW_MS"
    by (rule run_window(1)) simp_all
  have v2: "10000 \<le> (if endDate (runPosition 500) < 10000000000
          then endDate (runPosition 500) * 1000
          else endDate (runPosition 500)) - (runNow + 1000)"
    by (rule run_window(2)) simp_all
  have pr: "cycleKey (runPosition 500) \<notin> set (processedCycles runAfterSettle)"
    by (rule run_key_pruned) simp
  have en: "\<not> min (currentCapital runAfterSettle) (PAPER_MAX_TRADE defaultEnv)
      < PAPER_MIN_TRADE defaultEnv"
    by (simp add: runAfterSettle_capital defaultEnv_def)
  note p = arb_purchase [OF runPosition_flags(1,2) v1 v2 runMarket_winner pr en]
  have cap: "currentCapital (fst (executeArbitrageTrade defaultEnv (runNow + 1000) runAfterSettle
        (runPosition 500) (runMarket 500))) = currentCapital runAfterSettle - 15"
    using p(1) by (simp add: runAfterSettle_capital defaultEnv_def)
  have cost: "arbCostDown (snd (executeArbitrageTrade defaultEnv (runNow + 1000) runAfterSettle
        (runPosition 500) (runMarket 500))) = arbCostDown (runPosition 500) + 15"
    using p(2) by (simp add: runAfterSettle_capital defaultEnv_def)
  have shares: "arbSharesDown (snd (executeArbitrageTrade defaultEnv (runNow + 1000)
        runAfterSettle (runPosition 500) (runMarket 500)))
        = arbSharesDown (runPosition 500) + 500"
    using p(3) by (simp add: runAfterSettle_capital defaultEnv_def)
  have one: "length (paperTrades (fst (executeArbitrageTrade defaultEnv (runNow + 1000)
        runAfterSettle (runPosition 500) (runMarket 500)))) = 1"
    using p(5) by (simp add: runAfterSettle_trades)
  from l0 rec none l1 pr runAfterSettle_trades cap cost shares one show ?thesis by blast
qed

text \<open>
  C10, as the code has it. When \<^verbatim>\<open>executeArbitrageTrade\<close> reaches the capital check (no
  arbitrage yet, not settled, inside the window, a clear winner, key not recorded) with
  less than the minimum trade size available, it returns with the key recorded and
  nothing else changed. From the state it leaves, with any capital \<open>c\<close> put in the pool,
  and from any state that still holds the key, a call for that position performs no
  purchase.
\<close>

theorem lowCapital_records_cycle:
  fixes env :: PaperEnv and now :: real and st :: PaperState and position :: MarketPosition
    and mkt :: DiscoveredMarket
  defines "R \<equiv> executeArbitrageTrade env now st position mkt"
  assumes "\<not> hasArbitragePosition position" and "\<not> isSettled position"
    and "(if endDate position < 10000000000 then endDate position * 1000
          else endDate position) - now \<le> EXPIRATION_WINDOW_MS"
    and "10000 \<le> (if endDate position < 10000000000 then endDate position * 1000
          else endDate position) - now"
    and "clearWinner (priceUp mkt) (priceDown mkt) = Some wl"
    and "cycleKey position \<notin> set (processedCycles st)"
    and "min (currentCapital st) (PAPER_MAX_TRADE env) < PAPER_MIN_TRADE env"
  shows "R = (st\<lparr>processedCycles := processedCycles st @ [cycleKey position]\<rparr>, position)
     \<and> executeArbitrageTrade env' now' ((fst R)\<lparr>currentCapital := c\<rparr>) position mkt'
         = ((fst R)\<lparr>currentCapital := c\<rparr>, position)
     \<and> (cycleKey position \<in> set (processedCycles st') \<longrightarrow>
          executeArbitrageTrade env' now' st' position mkt' = (st', position))"
proof -
  have r: "R = (st\<lparr>processedCycles := processedCycles st @ [cycleKey position]\<rparr>, position)"
    unfolding R_def using assms(2-8) by (rule arb_low_capital)
  have "cycleKey position \<in> set (processedCycles ((fst R)\<lparr>currentCapital := c\<rparr>))"
    by (simp add: r)
  then have later: "executeArbitrageTrade env' now' ((fst R)\<lparr>currentCapital := c\<rparr>) position mkt'
         = ((fst R)\<lparr>currentCapital := c\<rparr>, position)"
    by (rule arb_key_recorded_noop)
  have gen: "cycleKey position \<in> set (processedCycles st') \<longrightarrow>
          executeArbitrageTrade env' now' st' position mkt' = (st', position)"
    by (simp add: arb_key_recorded_noop)
  from r later gen show ?thesis by blast
qed

theorem lowCapital_records_cycle_witness:
  "executeArbitrageTrade defaultEnv runNow emptyState (runPosition 0) (runMarket 0)
     = (emptyState\<lparr>processedCycles := processedCycles emptyState @ [cycleKey (runPosition 0)]\<rparr>,
        runPosition 0)
   \<and> executeArbitrageTrade defaultEnv (runNow + 1000)
        ((fst (executeArbitrageTrade defaultEnv runNow emptyState (runPosition 0) (runMarket 0)))
           \<lparr>currentCapital := 100\<rparr>)
        (runPosition 0) (runMarket 0)
     = ((fst (executeArbitrageTrade defaultEnv runNow emptyState (runPosition 0) (runMarket 0)))
           \<lparr>currentCapital := 100\<rparr>, runPosition 0)
   \<and> executeArbitrageTrade defaultEnv (runNow + 1000)
        (emptyState\<lparr>currentCapital := 100, processedCycles := [cycleKey (runPosition 0)]\<rparr>)
        (runPosition 0) (runMarket 0)
     = (emptyState\<lparr>currentCapital := 100, processedCycles := [cycleKey (runPosition 0)]\<rparr>,
        runPosition 0)"
proof -
  have k: "cycleKey (runPosition 0) \<notin> set (processedCycles emptyState)"
    by (simp add: emptyState_def)
  have m: "min (currentCapital emptyState) (PAPER_MAX_TRADE defaultEnv)
      < PAPER_MIN_TRADE defaultEnv"
    by (simp add: emptyState_def defaultEnv_def)
  have w1: "(if endDate (runPosition 0) < 10000000000 then endDate (runPosition 0) * 1000
          else endDate (runPosition 0)) - runNow \<le> EXPIRATION_WINDOW_MS"
    by (rule run_window(1)) simp_all
  have w2: "10000 \<le> (if endDate (runPosition 0) < 10000000000 then endDate (runPosition 0) * 1000
          else endDate (runPosition 0)) - runNow"
    by (rule run_window(2)) simp_all
  have r: "cycleKey (runPosition 0) \<in> set (processedCycles
      (emptyState\<lparr>currentCapital := 100, processedCycles := [cycleKey (runPosition 0)]\<rparr>))"
    by simp
  note t = lowCapital_records_cycle [OF runPosition_flags(1,2) w1 w2 runMarket_winner k m,
      where env' = defaultEnv and now' = "runNow + 1000" and c = 100 and mkt' = "runMarket 0"
      and st' = "emptyState\<lparr>currentCapital := 100,
                   processedCycles := [cycleKey (runPosition 0)]\<rparr>"]
  from t [THEN conjunct1] t [THEN conjunct2, THEN conjunct1]
    t [THEN conjunct2, THEN conjunct2, rule_format, OF r]
  show ?thesis by blast
qed

text \<open>
  C10 as the specification states it fails, for the same reason. In the run over 1001
  markets the first call, for market 0, meets an empty pool: it records the key and buys
  nothing. The pass records 1000 more keys, \<^verbatim>\<open>settlePositions\<close> prunes the oldest 501 and
  returns 1000 to the pool, and one second later, in the same expiration window, the
  call for market 0 buys 500 DOWN shares for 15.
\<close>

theorem lowCapital_cycle_counterexample:
  "executeArbitrageTrade defaultEnv runNow runState (runPosition 0) (runMarket 0)
     = (runState\<lparr>processedCycles := processedCycles runState @ [cycleKey (runPosition 0)]\<rparr>,
        runPosition 0)
   \<and> cycleKey (runPosition 0) \<in> set (processedCycles runAfterTick)
   \<and> paperTrades runAfterTick = []
   \<and> currentCapital runAfterSettle = 1000
   \<and> paperTrades (fst (executeArbitrageTrade defaultEnv (runNow + 1000) runAfterSettle
        (runPosition 0) (runMarket 0)))
      = [\<lparr>t_conditionId = runId 0, t_side = DOWN, t_action = ''BUY'', t_shares = 500,
          t_cost = 15, t_price = 0.03\<rparr>]
   \<and> currentCapital (fst (executeArbitrageTrade defaultEnv (runNow + 1000) runAfterSettle
        (runPosition 0) (runMarket 0))) = 985"
proof -
  have w1: "(if endDate (runPosition 0) < 10000000000 then endDate (runPosition 0) * 1000
          else endDate (runPosition 0)) - runNow \<le> EXPIRATION_WINDOW_MS"
    by (rule run_window(1)) simp_all
  have w2: "10000 \<le> (if endDate (runPosition 0) < 10000000000 then endDate (runPosition 0) * 1000
          else endDate (runPosition 0)) - runNow"
    by (rule run_window(2)) simp_all
  have first: "executeArbitrageTrade defaultEnv runNow runState (runPosition 0) (runMarket 0)
     = (runState\<lparr>processedCycles := processedCycles runState @ [cycleKey (runPosition 0)]\<rparr>,
        runPosition 0)"
    by (rule arb_low_capital [OF runPosition_flags(1,2) w1 w2 runMarket_winner])
       (simp_all add: runState_def emptyState_def defaultEnv_def)
  have rec: "cycleKey (runPosition 0) \<in> set (processedCycles runAfterTick)"
    by (simp add: runAfterTick_eq)
  have none: "paperTrades runAfterTick = []"
    by (simp add: runAfterTick_eq runState_def emptyState_def)
  have v1: "(if endDate (runPosition 0) < 10000000000 then endDate (runPosition 0) * 1000
          else endDate (runPosition 0)) - (runNow + 1000) \<le> EXPIRATION_WINDOW_MS"
    by (rule run_window(1)) simp_all
  have v2: "10000 \<le> (if endDate (runPosition 0) < 10000000000 then endDate (runPosition 0) * 1000
          else endDate (runPosition 0)) - (runNow + 1000)"
    by (rule run_window(2)) simp_all
  have pr: "cycleKey (runPosition 0) \<notin> set (processedCycles runAfterSettle)"
    by (rule run_key_pruned) simp
  have en: "\<not> min (currentCapital runAfterSettle) (PAPER_MAX_TRADE defaultEnv)
      < PAPER_MIN_TRADE defaultEnv"
    by (simp add: runAfterSettle_capital defaultEnv_def)
  note p = arb_purchase [OF runPosition_flags(1,2) v1 v2 runMarket_winner pr en]
  have trades: "paperTrades (fst (executeArbitrageTrade defaultEnv (runNow + 1000) runAfterSettle
        (runPosition 0) (runMarket 0)))
      = [\<lparr>t_conditionId = runId 0, t_side = DOWN, t_action = ''BUY'', t_shares = 500,
          t_cost = 15, t_price = 0.03\<rparr>]"
    using p(5)
    by (simp add: runAfterSettle_capital runAfterSettle_trades defaultEnv_def runPosition_flags)
  have cap: "currentCapital (fst (executeArbitrageTrade defaultEnv (runNow + 1000) runAfterSettle
        (runPosition 0) (runMarket 0))) = 985"
    using p(1) by (simp add: runAfterSettle_capital defaultEnv_def)
  from first rec none runAfterSettle_capital trades cap show ?thesis by blast
qed

end
